theory Spec2Isabelle
  imports Main
begin

section \<open>Deployment orchestration of serverless-kubeless (lib/deploy.js)\<close>

text \<open>
  The module drives a Kubernetes-like backend through callbacks.  The embedding makes every
  effect explicit: a promise is a value that is pending, resolved or rejected and that
  settles at most once; the log sink is a list of lines; an uncaught exception of a callback
  is recorded in a field; the responses of the backend are inputs of the model.
\<close>

subsection \<open>JavaScript values used by the module\<close>

text \<open>A rejection reason is a plain string (\<open>reject(`...`)\<close>) or an \<open>Error\<close> object.\<close>

datatype js_value = JsString string | JsError string

fun to_string :: "js_value \<Rightarrow> string" where
  "to_string (JsString s) = s"
| "to_string (JsError m) = ''Error: '' @ m"

datatype 'a promise = Pending | Resolved 'a | Rejected js_value

text \<open>\<open>resolve\<close> and \<open>reject\<close> have no effect on a promise that is already settled.\<close>

definition settle :: "'a promise \<Rightarrow> 'a promise \<Rightarrow> 'a promise" where
  "settle p v = (case p of Pending \<Rightarrow> v | Resolved x \<Rightarrow> Resolved x | Rejected e \<Rightarrow> Rejected e)"

fun starts_with :: "string \<Rightarrow> string \<Rightarrow> bool" where
  "starts_with s [] = True"
| "starts_with [] (p # ps) = False"
| "starts_with (c # cs) (p # ps) = (c = p \<and> starts_with cs ps)"

text \<open>\<open>s.match(/p/)\<close> for a pattern without metacharacters: \<open>p\<close> occurs in \<open>s\<close>.\<close>

fun contains :: "string \<Rightarrow> string \<Rightarrow> bool" where
  "contains [] p = (p = [])"
| "contains (c # cs) p = (starts_with (c # cs) p \<or> contains cs p)"

text \<open>\<open>Array.prototype.join\<close>.\<close>

fun join :: "string \<Rightarrow> string list \<Rightarrow> string" where
  "join sep [] = []"
| "join sep [x] = x"
| "join sep (x # y # ys) = x @ sep @ join sep (y # ys)"

text \<open>Truthiness of an optional string: \<open>undefined\<close>, \<open>null\<close> and \<open>''\<close> are falsy.\<close>

fun truthy :: "string option \<Rightarrow> bool" where
  "truthy None = False"
| "truthy (Some s) = (s \<noteq> [])"

text \<open>Truthiness of an optional object: an object, even an empty one, is truthy.\<close>

fun is_object :: "'a option \<Rightarrow> bool" where
  "is_object None = False"
| "is_object (Some x) = True"

text \<open>\<open>a || b\<close> on optional strings.\<close>

definition js_or :: "string option \<Rightarrow> string option \<Rightarrow> string option" where
  "js_or a b = (if truthy a then a else b)"

subsection \<open>Pods and the state of one poll\<close>

text \<open>
  A pod as \<open>waitForDeployment\<close> reads it: \<open>metadata.labels\<close> (\<open>None\<close> when the pod has
  no labels, an association list otherwise), \<open>metadata.creationTimestamp\<close> as the
  milliseconds \<open>moment\<close> parses it to, and \<open>status.containerStatuses\<close> (\<open>None\<close> when the
  field is absent).  Of a container status the code reads \<open>ready\<close>, \<open>restartCount\<close> and
  \<open>state\<close> (kept as its JSON text).
\<close>

record container_status =
  ready :: bool
  restartCount :: int
  state_json :: string

record pod =
  pod_labels :: "(string \<times> string) list option"
  creationTimestamp :: int
  containerStatuses :: "container_status list option"

text \<open>\<open>pod.metadata.labels.function\<close>, where the labels exist.\<close>

definition function_label :: "pod \<Rightarrow> string option" where
  "function_label p = (case pod_labels p of None \<Rightarrow> None | Some l \<Rightarrow> map_of l ''function'')"

text \<open>The answer to \<open>core.pods.get\<close>: an error with its message, or the items.\<close>

datatype pods_response = PodsError string | PodsInfo "pod list"

text \<open>
  The variables of \<open>waitForDeployment\<close> (\<open>retries\<close>, \<open>successfulCount\<close>,
  \<open>previousPodStatus\<close>, initially the string \<open>''\<close>, here \<open>None\<close>), whether
  \<open>clearInterval(loop)\<close> has been called, the returned promise, \<open>process.exitCode\<close>
  (\<open>None\<close> for \<open>undefined\<close>), the lines logged, the exception a callback has thrown, the
  number of \<open>core.pods.get\<close> requests issued and the number of them answered.
\<close>

record poll_state =
  retries :: nat
  successfulCount :: nat
  previousPodStatus :: "string list option"
  cleared :: bool
  outcome :: "unit promise"
  exitCode :: "nat option"
  logged :: "string list"
  thrown :: "string option"
  queries :: nat
  answered :: nat

definition poll_init :: "nat option \<Rightarrow> poll_state" where
  "poll_init ec = \<lparr> retries = 0, successfulCount = 0, previousPodStatus = None,
     cleared = False, outcome = Pending, exitCode = ec, logged = [], thrown = None,
     queries = 0, answered = 0 \<rparr>"

text \<open>\<open>process.exitCode || 1\<close>.\<close>

fun exit_code_or_1 :: "nat option \<Rightarrow> nat" where
  "exit_code_or_1 None = 1"
| "exit_code_or_1 (Some n) = (if n = 0 then 1 else n)"

subsection \<open>The readiness poller: \<open>waitForDeployment\<close>\<close>

text \<open>The head of the interval callback: \<open>if (retries > 3) { ... reject(...) }\<close>, with no return.\<close>

definition give_up_check :: "string \<Rightarrow> poll_state \<Rightarrow> poll_state" where
  "give_up_check funcName s =
     (if retries s > 3 then
        s\<lparr> logged := logged s @
              [''Giving up, unable to retrieve the status of the '' @ funcName @ '' deployment. ''],
           cleared := True,
           outcome := settle (outcome s)
              (Rejected (JsString (''Unable to retrieve the status of the '' @ funcName @ '' deployment''))) \<rparr>
      else s)"

text \<open>
  \<open>_.filter(podsInfo.items, ...)\<close>: the pods of the current function, not older than the
  request.  The predicate reads \<open>pod.metadata.labels.function\<close> of every listed pod, so a
  pod without labels throws a TypeError and there is no result (\<open>None\<close>).
\<close>

definition functionPods :: "string \<Rightarrow> int \<Rightarrow> pod list \<Rightarrow> pod list option" where
  "functionPods funcName requestMoment items =
     (if list_all (\<lambda>p. is_object (pod_labels p)) items then
        Some (filter (\<lambda>p. function_label p = Some funcName \<and> requestMoment \<le> creationTimestamp p)
                items)
      else None)"

text \<open>
  \<open>_.each(functionPods, pod => ...)\<close> with the counter \<open>runningPods\<close>.  Reading
  \<open>containerStatuses[0].ready\<close> of an empty array throws a TypeError, which ends the
  iteration (and the callback).
\<close>

fun inspect_pods :: "pod list \<Rightarrow> nat \<Rightarrow> poll_state \<Rightarrow> nat \<times> poll_state" where
  "inspect_pods [] n s = (n, s)"
| "inspect_pods (p # ps) n s =
     (case containerStatuses p of
        None \<Rightarrow> inspect_pods ps n s
      | Some [] \<Rightarrow> (n, s\<lparr> thrown := Some ''TypeError: Cannot read property ready of undefined'' \<rparr>)
      | Some (c # cs) \<Rightarrow>
          if ready c then inspect_pods ps (Suc n) s
          else if restartCount c > 2 then
            inspect_pods ps n
              (s\<lparr> logged := logged s @ [''ERROR: Failed to deploy the function''],
                  exitCode := Some (exit_code_or_1 (exitCode s)),
                  cleared := True \<rparr>)
          else inspect_pods ps n s)"

text \<open>
  \<open>_.map(functionPods, p => p.status.containerStatuses ? JSON.stringify(...[0].state) : 'unknown')\<close>;
  \<open>None\<close> when the read of an empty array throws.
\<close>

fun pod_statuses :: "pod list \<Rightarrow> string list option" where
  "pod_statuses [] = Some []"
| "pod_statuses (p # ps) =
     (case containerStatuses p of
        None \<Rightarrow> map_option ((#) ''unknown'') (pod_statuses ps)
      | Some [] \<Rightarrow> None
      | Some (c # cs) \<Rightarrow> map_option ((#) (state_json c)) (pod_statuses ps))"

text \<open>
  The callback of \<open>core.pods.get\<close>.  The counter \<open>runningPods\<close> belongs to the firing
  that sent the request and starts at 0.
\<close>

definition on_pods :: "string \<Rightarrow> int \<Rightarrow> bool \<Rightarrow> pods_response \<Rightarrow> poll_state \<Rightarrow> poll_state" where
  "on_pods funcName requestMoment verbose r s =
     (case r of
        PodsError msg \<Rightarrow>
          if contains msg ''request timed out''
          then s\<lparr> logged := logged s @ [''Request timed out. Retrying...''] \<rparr>
          else s\<lparr> thrown := Some msg \<rparr>
      | PodsInfo items \<Rightarrow>
          (case functionPods funcName requestMoment items of
             None \<Rightarrow> s\<lparr> thrown := Some ''TypeError: Cannot read property function of undefined'' \<rparr>
           | Some fps \<Rightarrow>
               if fps = [] then
                 s\<lparr> retries := retries s + 1,
                    logged := logged s @
                      [''Unable to find any running pod for '' @ funcName @ ''. Retrying...''] \<rparr>
               else
                 (case inspect_pods fps 0 s of (runningPods, s1) \<Rightarrow>
                   if thrown s1 \<noteq> None then s1
                   else if runningPods = length fps then
                     (let s2 = s1\<lparr> successfulCount := successfulCount s1 + 1 \<rparr> in
                      if successfulCount s2 = 2 then
                        s2\<lparr> logged := logged s2 @
                               [''Function '' @ funcName @ '' succesfully deployed''],
                            cleared := True,
                            outcome := settle (outcome s2) (Resolved ()) \<rparr>
                      else s2)
                   else if verbose then
                     (let s2 = s1\<lparr> successfulCount := 0 \<rparr> in
                      case pod_statuses fps of
                        None \<Rightarrow>
                          s2\<lparr> thrown := Some ''TypeError: Cannot read property state of undefined'' \<rparr>
                      | Some currentPodStatus \<Rightarrow>
                          if previousPodStatus s2 = Some currentPodStatus then s2
                          else s2\<lparr> logged := logged s2 @
                                    [''Pods status: '' @ join '','' currentPodStatus],
                                  previousPodStatus := Some currentPodStatus \<rparr>)
                   else s1)))"

text \<open>
  The interval callback itself: the give-up check, then the request (there is no return
  after \<open>reject\<close>).
\<close>

definition fire :: "string \<Rightarrow> poll_state \<Rightarrow> poll_state" where
  "fire funcName s = (give_up_check funcName s)\<lparr> queries := queries s + 1 \<rparr>"

text \<open>
  What happens to a poll: the interval fires (every 2000 ms, whether or not the earlier
  requests have been answered), or the answer to an outstanding request arrives.
\<close>

datatype poll_event = Fire | Answer pods_response

text \<open>
  The interval fires until it is cleared; the callback of a request that is under way
  still runs after that.  An uncaught exception ends the process.  An answer without an
  outstanding request does not happen.
\<close>

fun poll_step :: "string \<Rightarrow> int \<Rightarrow> bool \<Rightarrow> poll_state \<Rightarrow> poll_event \<Rightarrow> poll_state" where
  "poll_step funcName requestMoment verbose s Fire =
     (if cleared s \<or> is_object (thrown s) then s else fire funcName s)"
| "poll_step funcName requestMoment verbose s (Answer r) =
     (if is_object (thrown s) \<or> queries s \<le> answered s then s
      else on_pods funcName requestMoment verbose r (s\<lparr> answered := answered s + 1 \<rparr>))"

fun poll_run :: "string \<Rightarrow> int \<Rightarrow> bool \<Rightarrow> poll_state \<Rightarrow> poll_event list \<Rightarrow> poll_state" where
  "poll_run funcName requestMoment verbose s [] = s"
| "poll_run funcName requestMoment verbose s (e # es) =
     poll_run funcName requestMoment verbose (poll_step funcName requestMoment verbose s e) es"

text \<open>The events of a poll in which every request is answered before the interval fires again.\<close>

fun in_turn :: "pods_response list \<Rightarrow> poll_event list" where
  "in_turn [] = []"
| "in_turn (r # rs) = Fire # Answer r # in_turn rs"

text \<open>
  \<open>waitForDeployment(funcName, requestMoment, namespace, options)\<close>.  The namespace only
  selects the client; \<open>options.verbose\<close> is \<open>verbose\<close>, \<open>options.log\<close> appends to
  \<open>logged\<close>; \<open>ec\<close> is \<open>process.exitCode\<close> at the call and \<open>es\<close> what happens to the
  poll, in order.  The result is the state after these events: the poll itself goes on as
  long as the interval is not cleared.
\<close>

definition waitForDeployment ::
  "string \<Rightarrow> int \<Rightarrow> bool \<Rightarrow> nat option \<Rightarrow> poll_event list \<Rightarrow> poll_state" where
  "waitForDeployment funcName requestMoment verbose ec es =
     poll_run funcName requestMoment verbose (poll_init ec) es"

subsection \<open>Manifests: \<open>getFunctionDescription\<close> and \<open>getIngressDescription\<close>\<close>

text \<open>
  The documents sent to the backend, without their constant fields (\<open>apiVersion\<close>,
  \<open>kind\<close>, the two ingress annotations).  An object of strings is an association list.
\<close>

record container =
  container_name :: string
  container_env :: "(string \<times> string) list option"
  container_memory :: "string option"

record function_spec =
  spec_deps :: string
  spec_function :: string
  spec_handler :: string
  spec_runtime :: string
  spec_type :: string
  spec_topic :: "string option"
  spec_template :: "container option"

record function_manifest =
  meta_name :: string
  meta_namespace :: string
  meta_description :: "string option"
  meta_labels :: "(string \<times> string) list option"
  manifest_spec :: function_spec

record ingress_manifest =
  ingress_name :: string
  ingress_label :: string
  ingress_host :: string
  ingress_path :: string
  ingress_serviceName :: string
  ingress_servicePort :: nat

text \<open>\<open>a || d\<close> for an optional string \<open>a\<close> and a string \<open>d\<close>.\<close>

fun or_default :: "string option \<Rightarrow> string \<Rightarrow> string" where
  "or_default None d = d"
| "or_default (Some s) d = (if s = [] then d else s)"

text \<open>\<open>memory.toString().match(/\d+$/)\<close>: the text ends with a digit.\<close>

definition ends_with_digit :: "string \<Rightarrow> bool" where
  "ends_with_digit m = (m \<noteq> [] \<and> last m \<in> set ''0123456789'')"

definition getFunctionDescription ::
  "string \<Rightarrow> string \<Rightarrow> string \<Rightarrow> string option \<Rightarrow> string \<Rightarrow> string \<Rightarrow> string option \<Rightarrow>
   (string \<times> string) list option \<Rightarrow> (string \<times> string) list option \<Rightarrow> string option \<Rightarrow>
   string \<Rightarrow> string option \<Rightarrow> string + function_manifest" where
  "getFunctionDescription funcName namespace runtime deps funcContent handler desc labels env
       memory eventType eventTrigger =
     (let template =
            (if is_object env \<or> truthy memory then
               Some \<lparr> container_name = funcName, container_env = env,
                      container_memory =
                        (case memory of None \<Rightarrow> None
                         | Some m \<Rightarrow>
                             if m = [] then None
                             else if ends_with_digit m then Some (m @ ''Mi'') else Some m) \<rparr>
             else None);
          funcs = (\<lambda>ty topic.
            \<lparr> meta_name = funcName, meta_namespace = namespace,
              meta_description = (if truthy desc then desc else None),
              meta_labels = labels,
              manifest_spec =
                \<lparr> spec_deps = or_default deps [], spec_function = funcContent,
                  spec_handler = handler, spec_runtime = runtime, spec_type = ty,
                  spec_topic = topic, spec_template = template \<rparr> \<rparr>)
      in if eventType = ''http'' then Inr (funcs ''HTTP'' None)
         else if eventType = ''trigger'' then
           (if truthy eventTrigger then Inr (funcs ''PubSub'' eventTrigger)
            else Inl ''You should specify a topic for the trigger event'')
         else Inl (''Event type '' @ eventType @ '' is not supported''))"

definition getIngressDescription :: "string \<Rightarrow> string \<Rightarrow> string \<Rightarrow> ingress_manifest" where
  "getIngressDescription funcName funcPath funcHost =
     \<lparr> ingress_name = ''ingress-'' @ funcName, ingress_label = funcName,
       ingress_host = funcHost, ingress_path = funcPath,
       ingress_serviceName = funcName, ingress_servicePort = 8080 \<rparr>"

subsection \<open>The submitter: \<open>deployFunctionAndWait\<close> and \<open>redeployFunctionAndWait\<close>\<close>

text \<open>The answer to a \<open>post\<close> or \<open>put\<close>: no error, or an error with its code and message.\<close>

datatype submit_response = SubmitOk | SubmitError "nat option" string

fun string_of_nat :: "nat \<Rightarrow> string" where
  "string_of_nat n =
     (if n < 10 then [''0123456789'' ! n]
      else string_of_nat (n div 10) @ [''0123456789'' ! (n mod 10)])"

declare string_of_nat.simps [simp del]

text \<open>\<open>`${err.code}`\<close>.\<close>

fun code_text :: "nat option \<Rightarrow> string" where
  "code_text None = ''undefined''"
| "code_text (Some n) = string_of_nat n"

definition newline :: string where
  "newline = [CHR 0x0A]"

text \<open>
  What a submission leaves behind: the promise it returned, the lines it logged itself, and
  the final state of the poller when \<open>waitForDeployment\<close> was called.
\<close>

record submit_result =
  submit_outcome :: "bool promise"
  submit_logged :: "string list"
  submit_poll :: "poll_state option"

text \<open>\<open>moment().milliseconds(0)\<close>, the clock read in milliseconds.\<close>

definition request_moment :: "int \<Rightarrow> int" where
  "request_moment now = now - now mod 1000"

text \<open>\<open>waitForDeployment(...).then(() => { resolve(true); })\<close>: no rejection handler.\<close>

fun then_resolve_true :: "unit promise \<Rightarrow> bool promise" where
  "then_resolve_true (Resolved u) = Resolved True"
| "then_resolve_true (Rejected e) = Pending"
| "then_resolve_true Pending = Pending"

definition deployFunctionAndWait ::
  "function_manifest \<Rightarrow> bool \<Rightarrow> int \<Rightarrow> submit_response \<Rightarrow> nat option \<Rightarrow> poll_event list \<Rightarrow>
   submit_result" where
  "deployFunctionAndWait body verbose now response ec pods =
     (let requestMoment = request_moment now;
          announce = [''Deploying function '' @ meta_name body @ ''...'']
      in case response of
           SubmitError code msg \<Rightarrow>
             if code = Some 409 then
               \<lparr> submit_outcome = Resolved False,
                 submit_logged = announce @
                   [''The function '' @ meta_name body @ '' already exists. '' @
                    ''Redeploy it usign --force or executing '' @
                    [CHR 0x22] @ ''sls deploy function -f '' @ meta_name body @ [CHR 0x22] @ ''.''],
                 submit_poll = None \<rparr>
             else
               \<lparr> submit_outcome = Rejected (JsError
                   (''Unable to deploy the function '' @ meta_name body @ ''. Received:'' @ newline @
                    ''  Code: '' @ code_text code @ newline @
                    ''  Message: '' @ msg)),
                 submit_logged = announce,
                 submit_poll = None \<rparr>
         | SubmitOk \<Rightarrow>
             (let w = waitForDeployment (meta_name body) requestMoment verbose ec pods in
              \<lparr> submit_outcome = then_resolve_true (outcome w),
                submit_logged = announce,
                submit_poll = Some w \<rparr>))"

definition redeployFunctionAndWait ::
  "function_manifest \<Rightarrow> bool \<Rightarrow> int \<Rightarrow> submit_response \<Rightarrow> nat option \<Rightarrow> poll_event list \<Rightarrow>
   submit_result" where
  "redeployFunctionAndWait body verbose now response ec pods =
     (let requestMoment = request_moment now
      in case response of
           SubmitError code msg \<Rightarrow>
             \<lparr> submit_outcome = Rejected (JsError
                 (''Unable to update the function '' @ meta_name body @ ''. Received:'' @ newline @
                  ''  Code: '' @ code_text code @ newline @
                  ''  Message: '' @ msg)),
               submit_logged = [],
               submit_poll = None \<rparr>
         | SubmitOk \<Rightarrow>
             (let w = waitForDeployment (meta_name body) requestMoment verbose ec pods in
              \<lparr> submit_outcome = then_resolve_true (outcome w),
                submit_logged = [],
                submit_poll = Some w \<rparr>))"

subsection \<open>The ingress provisioner: \<open>addIngressRuleIfNecessary\<close>\<close>

text \<open>The promise returned, the documents posted to the ingress resource, the lines logged.\<close>

record ingress_result =
  ingress_outcome :: "unit promise"
  ingress_posted :: "ingress_manifest list"
  ingress_logged :: "string list"

text \<open>
  \<open>apiHostname\<close> stands for \<open>url.parse(helpers.getKubernetesAPIURL(config)).hostname\<close>
  (the helpers are not part of this module); \<open>response\<close> is the error message of the
  \<open>post\<close>, if any.
\<close>

definition addIngressRuleIfNecessary ::
  "string \<Rightarrow> string \<Rightarrow> string option \<Rightarrow> string option \<Rightarrow> bool \<Rightarrow> string \<Rightarrow> string option \<Rightarrow>
   ingress_result" where
  "addIngressRuleIfNecessary funcName eventType eventPath eventHostname verbose apiHostname response =
     (let fpath = or_default eventPath ''/'';
          hostname = or_default eventHostname (apiHostname @ ''.nip.io'')
      in if eventType = ''http'' \<and>
            ((truthy eventPath \<and> eventPath \<noteq> Some ''/'') \<or> truthy eventHostname)
         then
           (let absolutePath = (if starts_with fpath ''/'' then fpath else ''/'' @ fpath);
                ingressDef = getIngressDescription funcName absolutePath hostname
            in case response of
                 Some msg \<Rightarrow>
                   \<lparr> ingress_outcome = Rejected (JsString
                       (''Unable to deploy the function '' @ funcName @ '' in the given path. '' @
                        ''Received: '' @ msg)),
                     ingress_posted = [ingressDef],
                     ingress_logged = [] \<rparr>
               | None \<Rightarrow>
                   \<lparr> ingress_outcome = Resolved (),
                     ingress_posted = [ingressDef],
                     ingress_logged =
                       (if verbose then [''Deployed Ingress rule to map '' @ absolutePath] else []) \<rparr>)
         else
           \<lparr> ingress_outcome = Resolved (),
             ingress_posted = [],
             ingress_logged = (if verbose then [''Skipping ingress rule generation''] else []) \<rparr>)"

subsection \<open>The batch orchestrator: \<open>deploy\<close>\<close>

record event =
  event_type :: string
  event_path :: "string option"
  event_hostname :: "string option"
  event_trigger :: "string option"

record description =
  func_id :: string
  func_handler :: "string option"
  func_deps :: "string option"
  func_text :: string
  func_description :: "string option"
  func_labels :: "(string \<times> string) list option"
  func_environment :: "(string \<times> string) list option"
  func_memorySize :: "string option"
  func_namespace :: "string option"
  func_events :: "event list"

record options =
  opt_hostname :: "string option"
  opt_namespace :: "string option"
  opt_memorySize :: "string option"
  opt_force :: bool
  opt_verbose :: bool

text \<open>
  What the backend answers to the requests of one function and event: to the listing of
  the functions (an error, or the items as name and spec), to the \<open>post\<close> or \<open>put\<close> of
  the function, to the \<open>post\<close> of the ingress; what happens to the poll (the firings of
  its interval and the answers to its pod listings, in order); with the clock and
  \<open>process.exitCode\<close> at the submission and the host name of the API URL.
\<close>

record backend =
  functions_answer :: "string + (string \<times> function_spec) list"
  submit_answer :: submit_response
  clock :: int
  exit_code0 :: "nat option"
  pods_answers :: "poll_event list"
  ingress_answer :: "string option"
  api_hostname :: string

text \<open>
  What one function and event leaves behind: the lines logged by \<open>deploy\<close> itself, the
  bodies sent by \<open>post\<close> and by \<open>put\<close>, the submission (when one was made), the ingress
  provisioning (when \<open>addIngressRuleIfNecessary\<close> was called), the values pushed to
  \<open>errors\<close>, whether the last callback (\<open>counter++\<close>) ran, and an uncaught exception.
\<close>

record pair_result =
  pair_logged :: "string list"
  pair_posted :: "function_manifest list"
  pair_put :: "function_manifest list"
  pair_submission :: "submit_result option"
  pair_ingress :: "ingress_result option"
  pair_errors :: "js_value list"
  pair_counted :: bool
  pair_thrown :: "string option"

text \<open>
  \<open>deploymentPromise.catch(deploymentErr => { errors.push(deploymentErr); })\<close>: the values
  pushed and the promise of the value handed on (\<open>None\<close> for \<open>undefined\<close>).
\<close>

fun catch_push :: "bool promise \<Rightarrow> js_value list \<times> bool option promise" where
  "catch_push Pending = ([], Pending)"
| "catch_push (Resolved d) = ([], Resolved (Some d))"
| "catch_push (Rejected e) = ([e], Resolved None)"

text \<open>\<open>!deployed\<close>.\<close>

fun falsy :: "bool option \<Rightarrow> bool" where
  "falsy None = True"
| "falsy (Some b) = (\<not> b)"

text \<open>
  The callback \<open>.then((deployed) => ...)\<close>: the ingress provisioning (if called), the values
  pushed by \<open>p.catch\<close>, and whether the callback of \<open>p.then\<close> ran.
\<close>

definition after_deployment ::
  "options \<Rightarrow> description \<Rightarrow> event \<Rightarrow> backend \<Rightarrow> bool option \<Rightarrow> bool \<Rightarrow>
   ingress_result option \<times> js_value list \<times> bool" where
  "after_deployment opts d ev b deployed redeployed =
     (if falsy deployed \<or> redeployed then (None, [], True)
      else
        (let p = addIngressRuleIfNecessary (func_id d) (event_type ev) (event_path ev)
                   (js_or (event_hostname ev) (opt_hostname opts))
                   (opt_verbose opts) (api_hostname b) (ingress_answer b)
         in (Some p,
             (case ingress_outcome p of Rejected e \<Rightarrow> [e] | Resolved u \<Rightarrow> [] | Pending \<Rightarrow> []),
             (case ingress_outcome p of Resolved u \<Rightarrow> True | Rejected e \<Rightarrow> False | Pending \<Rightarrow> False))))"

text \<open>
  The check whether the function has been already deployed, and the branch it selects:
  \<open>existingSameFunction\<close>, else \<open>existingFunction && opts.force\<close>, else the creation.
\<close>

datatype action = Skip | Redeploy | Create

definition classify :: "options \<Rightarrow> function_manifest \<Rightarrow> (string \<times> function_spec) list \<Rightarrow> action" where
  "classify opts funcs items =
     (let existingFunction = list_ex (\<lambda>item. fst item = meta_name funcs) items;
          existingSameFunction =
            list_ex (\<lambda>item. fst item = meta_name funcs \<and> snd item = manifest_spec funcs) items
      in if existingSameFunction then Skip
         else if existingFunction \<and> opt_force opts then Redeploy
         else Create)"

text \<open>
  \<open>deploymentPromise.catch(...).then((deployed) => ...)\<close>, filling in the result of the
  pair; nothing runs while the deployment promise is pending.
\<close>

definition finish ::
  "options \<Rightarrow> description \<Rightarrow> event \<Rightarrow> backend \<Rightarrow> string list \<Rightarrow> function_manifest list \<Rightarrow>
   function_manifest list \<Rightarrow> submit_result option \<Rightarrow> bool promise \<Rightarrow> bool \<Rightarrow> pair_result" where
  "finish opts d ev b lines posted put submission deploymentPromise redeployed =
     (case catch_push deploymentPromise of
        (pushed, Resolved deployed) \<Rightarrow>
          (case after_deployment opts d ev b deployed redeployed of
             (ingress, pushed', counted) \<Rightarrow>
               \<lparr> pair_logged = lines, pair_posted = posted, pair_put = put,
                 pair_submission = submission, pair_ingress = ingress,
                 pair_errors = pushed @ pushed', pair_counted = counted,
                 pair_thrown = None \<rparr>)
      | (pushed, unsettled) \<Rightarrow>
          \<lparr> pair_logged = lines, pair_posted = posted, pair_put = put,
            pair_submission = submission, pair_ingress = None,
            pair_errors = pushed, pair_counted = False, pair_thrown = None \<rparr>)"

text \<open>
  The callback of \<open>thirdPartyResources.ns.functions.get\<close> for one function and event;
  \<open>if (err) throw err\<close> is an uncaught exception.
\<close>

definition deploy_pair ::
  "options \<Rightarrow> description \<Rightarrow> event \<Rightarrow> function_manifest \<Rightarrow> backend \<Rightarrow> pair_result" where
  "deploy_pair opts d ev funcs b =
     (case functions_answer b of
        Inl err \<Rightarrow>
          \<lparr> pair_logged = [], pair_posted = [], pair_put = [], pair_submission = None,
            pair_ingress = None, pair_errors = [], pair_counted = False,
            pair_thrown = Some err \<rparr>
      | Inr items \<Rightarrow>
          (case classify opts funcs items of
             Skip \<Rightarrow>
               finish opts d ev b
                 [''Function '' @ func_id d @ '' has not changed. Skipping deployment'']
                 [] [] None (Resolved False) False
           | Redeploy \<Rightarrow>
               (let r = redeployFunctionAndWait funcs (opt_verbose opts) (clock b)
                          (submit_answer b) (exit_code0 b) (pods_answers b)
                in finish opts d ev b [] [] [funcs] (Some r) (submit_outcome r) True)
           | Create \<Rightarrow>
               (let r = deployFunctionAndWait funcs (opt_verbose opts) (clock b)
                          (submit_answer b) (exit_code0 b) (pods_answers b)
                in finish opts d ev b [] [funcs] [] (Some r) (submit_outcome r) False)))"

text \<open>\<open>!_.isEmpty(description.events) ? description.events : [{ type: 'http', path: '/' }]\<close>.\<close>

definition events_of :: "description \<Rightarrow> event list" where
  "events_of d =
     (if func_events d \<noteq> [] then func_events d
      else [\<lparr> event_type = ''http'', event_path = Some ''/'', event_hostname = None,
              event_trigger = None \<rparr>])"

text \<open>
  The two nested \<open>_.each\<close> of \<open>deploy\<close>: the manifests built, in order, until
  \<open>getFunctionDescription\<close> throws.  \<open>ns\<close> stands for
  \<open>thirdPartyResources.namespaces.namespace\<close> of the client built for the function.
\<close>

fun schedule_events ::
  "string \<Rightarrow> options \<Rightarrow> string \<Rightarrow> description \<Rightarrow> event list \<Rightarrow>
   (description \<times> event \<times> function_manifest) list \<times> string option" where
  "schedule_events runtime opts ns d [] = ([], None)"
| "schedule_events runtime opts ns d (ev # evs) =
     (case getFunctionDescription (func_id d) ns runtime (func_deps d) (func_text d)
             (or_default (func_handler d) []) (func_description d) (func_labels d)
             (func_environment d) (js_or (func_memorySize d) (opt_memorySize opts))
             (event_type ev) (event_trigger ev) of
        Inl err \<Rightarrow> ([], Some err)
      | Inr funcs \<Rightarrow>
          (case schedule_events runtime opts ns d evs of
             (ps, t) \<Rightarrow> ((d, ev, funcs) # ps, t)))"

fun schedule ::
  "string \<Rightarrow> options \<Rightarrow> (string option \<Rightarrow> string) \<Rightarrow> description list \<Rightarrow>
   (description \<times> event \<times> function_manifest) list \<times> string list \<times> string option" where
  "schedule runtime opts nsOf [] = ([], [], None)"
| "schedule runtime opts nsOf (d # ds) =
     (if truthy (func_handler d) then
        (case schedule_events runtime opts
                (nsOf (js_or (func_namespace d) (opt_namespace opts))) d (events_of d) of
           (ps, Some err) \<Rightarrow> (ps, [], Some err)
         | (ps, None) \<Rightarrow>
             (case schedule runtime opts nsOf ds of (qs, lines, t) \<Rightarrow> (ps @ qs, lines, t)))
      else
        (case schedule runtime opts nsOf ds of
           (qs, lines, t) \<Rightarrow>
             (qs, (''Skipping deployment of '' @ func_id d @
                   '' since it doesn't have a handler'') # lines, t)))"

text \<open>The variables shared by the pairs of one batch, and the promise \<open>deploy\<close> returns.\<close>

record batch_state =
  errors :: "js_value list"
  counter :: nat
  batch_outcome :: "unit promise"

text \<open>The callback of \<open>p.then\<close>; \<open>expected\<close> is \<open>_.keys(functions).length\<close>.\<close>

definition pair_done :: "nat \<Rightarrow> batch_state \<Rightarrow> batch_state" where
  "pair_done expected st =
     (let st1 = st\<lparr> counter := counter st + 1 \<rparr> in
      if counter st1 = expected then
        (if errors st1 = [] then
           st1\<lparr> batch_outcome := settle (batch_outcome st1) (Resolved ()) \<rparr>
         else
           st1\<lparr> batch_outcome := settle (batch_outcome st1)
                  (Rejected (JsError
                     (''Found errors while deploying the given functions:'' @ newline @
                      join newline (map to_string (errors st1))))) \<rparr>)
      else st1)"

text \<open>One pair reaches the shared variables: its pushes, then its last callback.\<close>

definition absorb_pair :: "nat \<Rightarrow> batch_state \<Rightarrow> pair_result \<Rightarrow> batch_state" where
  "absorb_pair expected st r =
     (let st1 = st\<lparr> errors := errors st @ pair_errors r \<rparr> in
      if pair_counted r then pair_done expected st1 else st1)"

record batch_result =
  batch_pairs :: "pair_result list"
  batch_logged :: "string list"
  batch_final :: batch_state

text \<open>
  \<open>deploy\<close>.  The pairs are independent but for \<open>errors\<close>, \<open>counter\<close> and the promise;
  the \<open>n\<close>-th scheduled pair gets the answers \<open>backends n\<close>.  The callbacks of the pairs
  run as the backend answers: \<open>order\<close> lists the pairs, by their place in the schedule,
  in the order in which their last callbacks reach the shared variables (the push and the
  count of one pair together); a pair that is not listed has not got there.  An exception
  of the executor rejects the promise.
\<close>

definition deploy ::
  "description list \<Rightarrow> string \<Rightarrow> options \<Rightarrow> (string option \<Rightarrow> string) \<Rightarrow> (nat \<Rightarrow> backend) \<Rightarrow>
   nat list \<Rightarrow> batch_result" where
  "deploy functions runtime opts nsOf backends order =
     (case schedule runtime opts nsOf functions of
        (pairs, lines, t) \<Rightarrow>
          (let results =
                 map (\<lambda>(n, (d, ev, funcs)). deploy_pair opts d ev funcs (backends n))
                   (enumerate 0 pairs);
               arrived = map (nth results) (filter (\<lambda>n. n < length results) (remdups order));
               start = \<lparr> errors = [], counter = 0,
                         batch_outcome =
                           (case t of None \<Rightarrow> Pending | Some err \<Rightarrow> Rejected (JsError err)) \<rparr>
           in \<lparr> batch_pairs = results, batch_logged = lines,
                batch_final = foldl (absorb_pair (length functions)) start arrived \<rparr>))"

subsection \<open>Sample inputs\<close>

definition sample_pod :: "string \<Rightarrow> int \<Rightarrow> (bool \<times> int) option \<Rightarrow> pod" where
  "sample_pod f t st =
     \<lparr> pod_labels = Some [(''function'', f)], creationTimestamp = t,
       containerStatuses =
         (case st of None \<Rightarrow> None
          | Some (r, n) \<Rightarrow> Some [\<lparr> ready = r, restartCount = n, state_json = ''{}'' \<rparr>]) \<rparr>"

text \<open>A pod of another workload, without labels.\<close>

definition bare_pod :: pod where
  "bare_pod = \<lparr> pod_labels = None, creationTimestamp = 2000, containerStatuses = None \<rparr>"

definition sample_manifest :: "string \<Rightarrow> function_manifest" where
  "sample_manifest name =
     \<lparr> meta_name = name, meta_namespace = ''default'', meta_description = None,
       meta_labels = None,
       manifest_spec =
         \<lparr> spec_deps = [], spec_function = ''def hello(): pass'', spec_handler = ''h.hello'',
           spec_runtime = ''python2.7'', spec_type = ''HTTP'', spec_topic = None,
           spec_template = None \<rparr> \<rparr>"

definition sample_function :: "string \<Rightarrow> string option \<Rightarrow> event list \<Rightarrow> description" where
  "sample_function name h evs =
     \<lparr> func_id = name, func_handler = h, func_deps = None,
       func_text = ''def hello(): pass'', func_description = None, func_labels = None,
       func_environment = None, func_memorySize = None, func_namespace = None,
       func_events = evs \<rparr>"

definition sample_options :: "bool \<Rightarrow> options" where
  "sample_options force =
     \<lparr> opt_hostname = None, opt_namespace = None, opt_memorySize = None,
       opt_force = force, opt_verbose = False \<rparr>"

definition sample_backend ::
  "(string \<times> function_spec) list \<Rightarrow> submit_response \<Rightarrow> poll_event list \<Rightarrow> string option \<Rightarrow>
   backend" where
  "sample_backend items sub pods ing =
     \<lparr> functions_answer = Inr items, submit_answer = sub, clock = 1500, exit_code0 = None,
       pods_answers = pods, ingress_answer = ing, api_hostname = ''1.2.3.4'' \<rparr>"

definition http_event :: "string option \<Rightarrow> event" where
  "http_event path =
     \<lparr> event_type = ''http'', event_path = path, event_hostname = None, event_trigger = None \<rparr>"

definition trigger_event :: "string \<Rightarrow> event" where
  "trigger_event topic =
     \<lparr> event_type = ''trigger'', event_path = None, event_hostname = None,
       event_trigger = Some topic \<rparr>"

text \<open>Two listings, each answered in turn, in which the only pod of \<open>hello\<close> is ready.\<close>

definition ready_twice :: "poll_event list" where
  "ready_twice =
     in_turn [PodsInfo [sample_pod ''hello'' 2000 (Some (True, 0))],
              PodsInfo [sample_pod ''hello'' 2000 (Some (True, 0))]]"

section \<open>Properties of the readiness poller\<close>

subsection \<open>What the inspection of the pods changes\<close>

lemma settle_settled: "p \<noteq> Pending \<Longrightarrow> settle p v = p"
  by (cases p) (simp_all add: settle_def)

lemma settle_not_pending: "v \<noteq> Pending \<Longrightarrow> settle p v \<noteq> Pending"
  by (cases p) (simp_all add: settle_def)

lemma inspect_pods_frame:
  "inspect_pods ps n s = (m, s') \<Longrightarrow>
     retries s' = retries s \<and> successfulCount s' = successfulCount s \<and>
     previousPodStatus s' = previousPodStatus s \<and> outcome s' = outcome s \<and>
     queries s' = queries s \<and> answered s' = answered s"
  by (induction ps n s rule: inspect_pods.induct)
     (auto split: option.splits list.splits if_splits)

lemma inspect_pods_count: "inspect_pods ps n s = (m, s') \<Longrightarrow> m \<le> n + length ps"
  by (induction ps n s rule: inspect_pods.induct)
     (auto split: option.splits list.splits if_splits)

lemma inspect_pods_cleared:
  "inspect_pods ps n s = (m, s') \<Longrightarrow> cleared s \<Longrightarrow> cleared s'"
  by (induction ps n s rule: inspect_pods.induct)
     (auto split: option.splits list.splits if_splits)

lemma inspect_pods_no_throw:
  "inspect_pods ps n s = (m, s') \<Longrightarrow> list_all (\<lambda>q. containerStatuses q \<noteq> Some []) ps \<Longrightarrow>
     thrown s' = thrown s"
  by (induction ps n s rule: inspect_pods.induct)
     (auto split: option.splits list.splits if_splits)

text \<open>The pods without container statuses can be left out of the inspection.\<close>

lemma inspect_pods_skips_bare:
  "inspect_pods ps n s = inspect_pods (filter (\<lambda>q. is_object (containerStatuses q)) ps) n s"
  by (induction ps n s rule: inspect_pods.induct)
     (auto split: option.splits list.splits)

lemma inspect_pods_no_statuses:
  "list_all (\<lambda>q. containerStatuses q = None) ps \<Longrightarrow> inspect_pods ps n s = (n, s)"
  by (induction ps) auto

lemma pod_statuses_no_statuses:
  "list_all (\<lambda>q. containerStatuses q = None) ps \<Longrightarrow>
     pod_statuses ps = Some (replicate (length ps) ''unknown'')"
  by (induction ps) auto

lemma pod_statuses_defined:
  "list_all (\<lambda>q. containerStatuses q \<noteq> Some []) ps \<Longrightarrow> pod_statuses ps \<noteq> None"
  by (induction ps) (auto split: option.splits list.splits)

subsection \<open>What one event changes\<close>

lemma on_pods_frame:
  "queries (on_pods f rm v r s) = queries s \<and>
   answered (on_pods f rm v r s) = answered s \<and>
   (cleared s \<longrightarrow> cleared (on_pods f rm v r s)) \<and>
   (outcome s \<noteq> Pending \<longrightarrow> outcome (on_pods f rm v r s) = outcome s) \<and>
   (outcome s = Pending \<longrightarrow> outcome (on_pods f rm v r s) \<noteq> Rejected e) \<and>
   retries (on_pods f rm v r s) =
     retries s +
     (case r of PodsError e \<Rightarrow> 0
      | PodsInfo items \<Rightarrow> if functionPods f rm items = Some [] then 1 else 0)"
proof (cases r)
  case (PodsError e)
  then show ?thesis by (simp add: on_pods_def)
next
  case (PodsInfo items)
  show ?thesis
  proof (cases "functionPods f rm items")
    case None
    with PodsInfo show ?thesis by (simp add: on_pods_def)
  next
    case (Some fps)
    obtain m s1 where run: "inspect_pods fps 0 s = (m, s1)"
      by (cases "inspect_pods fps 0 s")
    from inspect_pods_frame [OF run] inspect_pods_cleared [OF run]
    have "queries s1 = queries s" "answered s1 = answered s" "retries s1 = retries s"
      "outcome s1 = outcome s" "cleared s \<Longrightarrow> cleared s1" by auto
    with PodsInfo Some run show ?thesis
      by (auto simp: on_pods_def Let_def settle_def split: option.splits promise.splits)
  qed
qed

lemma fire_frame:
  "retries (fire f s) = retries s \<and> answered (fire f s) = answered s \<and>
   queries (fire f s) = queries s + 1 \<and> thrown (fire f s) = thrown s \<and>
   successfulCount (fire f s) = successfulCount s"
  by (simp add: fire_def give_up_check_def)

lemma fire_give_up:
  "3 < retries s \<Longrightarrow>
     cleared (fire f s) \<and>
     outcome (fire f s) =
       settle (outcome s)
         (Rejected (JsString (''Unable to retrieve the status of the '' @ f @ '' deployment'')))"
  by (simp add: fire_def give_up_check_def)

lemma fire_go_on:
  "retries s \<le> 3 \<Longrightarrow> fire f s = s\<lparr> queries := queries s + 1 \<rparr>"
  by (simp add: fire_def give_up_check_def)

lemma poll_run_append:
  "poll_run f rm v s (xs @ ys) = poll_run f rm v (poll_run f rm v s xs) ys"
  by (induction xs arbitrary: s) simp_all

text \<open>Once the interval is cleared and the promise settled, no event changes either.\<close>

lemma poll_step_stopped:
  assumes "cleared s" and "outcome s \<noteq> Pending"
  shows "cleared (poll_step f rm v s e) \<and> outcome (poll_step f rm v s e) = outcome s \<and>
         queries (poll_step f rm v s e) = queries s"
proof (cases e)
  case Fire
  with assms show ?thesis by simp
next
  case (Answer r)
  with assms on_pods_frame [of f rm v r "s\<lparr> answered := answered s + 1 \<rparr>"]
  show ?thesis by simp
qed

lemma poll_run_stopped:
  "cleared s \<Longrightarrow> outcome s \<noteq> Pending \<Longrightarrow>
     cleared (poll_run f rm v s es) \<and> outcome (poll_run f rm v s es) = outcome s \<and>
     queries (poll_run f rm v s es) = queries s"
proof (induction es arbitrary: s)
  case Nil
  then show ?case by simp
next
  case (Cons e es)
  from poll_step_stopped [OF Cons.prems, of f rm v e]
  have "cleared (poll_step f rm v s e)" "outcome (poll_step f rm v s e) = outcome s"
    "queries (poll_step f rm v s e) = queries s" by auto
  with Cons.IH [of "poll_step f rm v s e"] Cons.prems show ?case by simp
qed

text \<open>A firing and its answer, when the listing has no pod of the function.\<close>

lemma turn_empty:
  assumes "functionPods f rm items = Some []" and "\<not> cleared s" and "thrown s = None"
    and "answered s = queries s" and "retries s \<le> 3"
  shows "poll_run f rm v s [Fire, Answer (PodsInfo items)] =
     s\<lparr> queries := queries s + 1, answered := answered s + 1, retries := retries s + 1,
        logged := logged s @ [''Unable to find any running pod for '' @ f @ ''. Retrying...''] \<rparr>"
  using assms by (simp add: fire_go_on on_pods_def)

lemma turns_empty:
  "list_all (\<lambda>items. functionPods f rm items = Some []) listings \<Longrightarrow> \<not> cleared s \<Longrightarrow>
   thrown s = None \<Longrightarrow> answered s = queries s \<Longrightarrow> retries s + length listings \<le> 4 \<Longrightarrow>
     retries (poll_run f rm v s (in_turn (map PodsInfo listings))) = retries s + length listings \<and>
     outcome (poll_run f rm v s (in_turn (map PodsInfo listings))) = outcome s \<and>
     \<not> cleared (poll_run f rm v s (in_turn (map PodsInfo listings))) \<and>
     thrown (poll_run f rm v s (in_turn (map PodsInfo listings))) = None \<and>
     answered (poll_run f rm v s (in_turn (map PodsInfo listings))) =
       queries (poll_run f rm v s (in_turn (map PodsInfo listings)))"
proof (induction listings arbitrary: s)
  case Nil
  then show ?case by simp
next
  case (Cons items listings)
  let ?s1 = "s\<lparr> queries := queries s + 1, answered := answered s + 1, retries := retries s + 1,
        logged := logged s @ [''Unable to find any running pod for '' @ f @ ''. Retrying...''] \<rparr>"
  from Cons.prems have e: "functionPods f rm items = Some []" and r: "retries s \<le> 3" by auto
  have step: "poll_run f rm v s (in_turn (map PodsInfo (items # listings))) =
      poll_run f rm v ?s1 (in_turn (map PodsInfo listings))"
    using turn_empty [OF e Cons.prems(2,3,4) r, of v]
      poll_run_append [of f rm v s "[Fire, Answer (PodsInfo items)]" "in_turn (map PodsInfo listings)"]
    by simp
  from Cons.prems have "list_all (\<lambda>items. functionPods f rm items = Some []) listings"
    "\<not> cleared ?s1" "thrown ?s1 = None" "answered ?s1 = queries ?s1"
    "retries ?s1 + length listings \<le> 4" by auto
  from Cons.IH [OF this] show ?case unfolding step by simp
qed

subsection \<open>Crash loops\<close>

text \<open>
  Claim C2 does not hold of the code: the branch for a container that is not ready and
  has restarted more than twice logs the error, sets the exit code and clears the
  interval, but never calls \<open>reject\<close>, as the give-up branch does.  No answer to a pod
  listing ever rejects a pending promise.  With a crash-looping pod of \<open>hello\<close> next to a
  ready one on the first listing, the poll ends with the interval cleared, the exit code 1
  and the promise pending, whatever is listed afterwards; in a batch the pair never
  completes, no error is collected and the promise of the batch stays pending.
\<close>

theorem crash_loop_leaves_promise_pending:
  "(\<forall>f rm v r s e. outcome (on_pods f rm v r (s\<lparr> outcome := Pending \<rparr>)) \<noteq> Rejected e) \<and>
   waitForDeployment ''hello'' 1000 False None
      (in_turn [PodsInfo [sample_pod ''hello'' 1000 (Some (False, 3)),
                          sample_pod ''hello'' 1000 (Some (True, 0))],
                PodsInfo [sample_pod ''hello'' 1000 (Some (True, 0))],
                PodsInfo [sample_pod ''hello'' 1000 (Some (True, 0))]]) =
     \<lparr> retries = 0, successfulCount = 0, previousPodStatus = None, cleared = True,
       outcome = Pending, exitCode = Some 1,
       logged = [''ERROR: Failed to deploy the function''], thrown = None,
       queries = 1, answered = 1 \<rparr> \<and>
   batch_final (deploy [sample_function ''hello'' (Some ''h.hello'') []]
       ''python2.7'' (sample_options False) (\<lambda>ns. ''default'')
       (\<lambda>n. sample_backend [] SubmitOk
              (in_turn [PodsInfo [sample_pod ''hello'' 2000 (Some (False, 3))]]) None) [0]) =
     \<lparr> errors = [], counter = 0, batch_outcome = Pending \<rparr>"
proof -
  have "outcome (on_pods f rm v r (s\<lparr> outcome := Pending \<rparr>)) \<noteq> Rejected e" for f rm v r s e
    using on_pods_frame [of f rm v r "s\<lparr> outcome := Pending \<rparr>" e] by simp
  moreover have "waitForDeployment ''hello'' 1000 False None
      (in_turn [PodsInfo [sample_pod ''hello'' 1000 (Some (False, 3)),
                          sample_pod ''hello'' 1000 (Some (True, 0))],
                PodsInfo [sample_pod ''hello'' 1000 (Some (True, 0))],
                PodsInfo [sample_pod ''hello'' 1000 (Some (True, 0))]]) =
     \<lparr> retries = 0, successfulCount = 0, previousPodStatus = None, cleared = True,
       outcome = Pending, exitCode = Some 1,
       logged = [''ERROR: Failed to deploy the function''], thrown = None,
       queries = 1, answered = 1 \<rparr>"
    by code_simp
  moreover have "batch_final (deploy [sample_function ''hello'' (Some ''h.hello'') []]
       ''python2.7'' (sample_options False) (\<lambda>ns. ''default'')
       (\<lambda>n. sample_backend [] SubmitOk
              (in_turn [PodsInfo [sample_pod ''hello'' 2000 (Some (False, 3))]]) None) [0]) =
     \<lparr> errors = [], counter = 0, batch_outcome = Pending \<rparr>"
    by code_simp
  ultimately show ?thesis by blast
qed

subsection \<open>The stability counter\<close>

text \<open>
  Claim C3 does not hold of the code: \<open>successfulCount = 0\<close> stands in the branch
  \<open>else if (opts.verbose)\<close>.  Without the verbose option a tick that is not fully ready
  keeps the counter, and the poll resolves on two ready ticks that are not consecutive.
\<close>

theorem quiet_poll_resolves_on_separated_ready_ticks:
  "successfulCount (waitForDeployment ''hello'' 1000 False None
      (in_turn [PodsInfo [sample_pod ''hello'' 1000 (Some (True, 0))],
                PodsInfo [sample_pod ''hello'' 1000 (Some (False, 0))]])) = 1 \<and>
   outcome (waitForDeployment ''hello'' 1000 False None
      (in_turn [PodsInfo [sample_pod ''hello'' 1000 (Some (True, 0))],
                PodsInfo [sample_pod ''hello'' 1000 (Some (False, 0))],
                PodsInfo [sample_pod ''hello'' 1000 (Some (True, 0))]])) = Resolved ()"
  by code_simp

subsection \<open>Giving up\<close>

text \<open>
  Claim C4, as the code has it, for every state \<open>t\<close> of a poll and every run.  An answer
  increments \<open>retries\<close> exactly when its listing succeeds and has no pod of the function;
  a firing of the interval never changes it, and nothing resets it.  A firing gives up
  exactly when it finds \<open>retries > 3\<close>: it rejects the promise (if still pending) with the
  timeout message and clears the interval, and no request is sent after the one of that
  firing.  So when each request is answered before the interval fires again, a poll that
  is running with its promise pending is still so after the answers that bring \<open>retries\<close>
  to 4, and it is the next firing, the fifth tick of a poll that never saw a pod, that
  fails it.
\<close>

theorem give_up_at_the_firing_after_the_fourth_empty_answer:
  assumes "list_all (\<lambda>items. functionPods f rm items = Some []) listings"
    and "\<not> cleared s" and "thrown s = None" and "answered s = queries s"
    and "retries s + length listings = 4" and "outcome s = Pending"
  shows
    "retries (on_pods f rm v r t) =
       retries t +
       (case r of PodsError e \<Rightarrow> 0
        | PodsInfo items \<Rightarrow> if functionPods f rm items = Some [] then 1 else 0) \<and>
     retries (fire f t) = retries t \<and>
     (3 < retries t \<longrightarrow>
        cleared (fire f t) \<and>
        outcome (fire f t) =
          settle (outcome t)
            (Rejected (JsString (''Unable to retrieve the status of the '' @ f @ '' deployment''))) \<and>
        (\<forall>es. queries (poll_run f rm v (fire f t) es) = queries (fire f t))) \<and>
     (retries t \<le> 3 \<longrightarrow> cleared (fire f t) = cleared t \<and> outcome (fire f t) = outcome t) \<and>
     retries (poll_run f rm v s (in_turn (map PodsInfo listings))) = 4 \<and>
     outcome (poll_run f rm v s (in_turn (map PodsInfo listings))) = Pending \<and>
     \<not> cleared (poll_run f rm v s (in_turn (map PodsInfo listings))) \<and>
     outcome (poll_run f rm v s (in_turn (map PodsInfo listings) @ Fire # es)) =
       Rejected (JsString (''Unable to retrieve the status of the '' @ f @ '' deployment'')) \<and>
     cleared (poll_run f rm v s (in_turn (map PodsInfo listings) @ Fire # es)) \<and>
     queries (poll_run f rm v s (in_turn (map PodsInfo listings) @ Fire # es)) =
       queries (poll_run f rm v s (in_turn (map PodsInfo listings) @ [Fire]))"
proof -
  let ?msg = "Rejected (JsString (''Unable to retrieve the status of the '' @ f @ '' deployment''))"
  let ?s4 = "poll_run f rm v s (in_turn (map PodsInfo listings))"
  have stop: "3 < retries u \<Longrightarrow>
      cleared (fire f u) \<and> outcome (fire f u) = settle (outcome u) ?msg \<and>
      (\<forall>es. cleared (poll_run f rm v (fire f u) es) \<and>
            outcome (poll_run f rm v (fire f u) es) = outcome (fire f u) \<and>
            queries (poll_run f rm v (fire f u) es) = queries (fire f u))" for u
  proof -
    assume r: "3 < retries u"
    from fire_give_up [OF r, of f]
    have c: "cleared (fire f u)" and o: "outcome (fire f u) = settle (outcome u) ?msg" by auto
    from o have "outcome (fire f u) \<noteq> Pending" by (simp add: settle_not_pending)
    from poll_run_stopped [OF c this, of f rm v] c o show ?thesis by blast
  qed
  from assms(5) have le: "retries s + length listings \<le> 4" by simp
  from turns_empty [OF assms(1-4) le, of v] assms(5,6)
  have s4: "retries ?s4 = 4" "outcome ?s4 = Pending" "\<not> cleared ?s4" "thrown ?s4 = None"
    by simp_all
  have five: "poll_run f rm v s (in_turn (map PodsInfo listings) @ Fire # es') =
      poll_run f rm v (fire f ?s4) es'" for es'
    using s4(3,4) by (simp add: poll_run_append)
  have r4: "3 < retries ?s4" using s4(1) by simp
  from stop [OF r4] s4(2)
  have t5: "outcome (fire f ?s4) = ?msg"
    "\<And>es'. cleared (poll_run f rm v (fire f ?s4) es')"
    "\<And>es'. outcome (poll_run f rm v (fire f ?s4) es') = ?msg"
    "\<And>es'. queries (poll_run f rm v (fire f ?s4) es') = queries (fire f ?s4)"
    by (simp_all add: settle_def)
  have "retries (on_pods f rm v r t) =
       retries t +
       (case r of PodsError e \<Rightarrow> 0
        | PodsInfo items \<Rightarrow> if functionPods f rm items = Some [] then 1 else 0)"
    using on_pods_frame [of f rm v r t] by simp
  moreover have "retries (fire f t) = retries t" by (simp add: fire_frame)
  moreover have "3 < retries t \<longrightarrow>
        cleared (fire f t) \<and> outcome (fire f t) = settle (outcome t) ?msg \<and>
        (\<forall>es. queries (poll_run f rm v (fire f t) es) = queries (fire f t))"
    using stop [of t] by blast
  moreover have "retries t \<le> 3 \<longrightarrow> cleared (fire f t) = cleared t \<and> outcome (fire f t) = outcome t"
    by (simp add: fire_go_on)
  moreover have "outcome (poll_run f rm v s (in_turn (map PodsInfo listings) @ Fire # es)) = ?msg"
    "cleared (poll_run f rm v s (in_turn (map PodsInfo listings) @ Fire # es))"
    "queries (poll_run f rm v s (in_turn (map PodsInfo listings) @ Fire # es)) =
       queries (poll_run f rm v s (in_turn (map PodsInfo listings) @ [Fire]))"
    unfolding five using t5 by simp_all
  ultimately show ?thesis using s4 by blast
qed

text \<open>
  The theorem for a new poll of \<open>hello\<close> with four empty listings answered in turn, a
  fifth firing, and what may still happen afterwards.
\<close>

theorem give_up_at_the_firing_after_the_fourth_empty_answer_witness:
  "outcome (waitForDeployment ''hello'' 1000 False None
      (in_turn (map PodsInfo [[], [], [], []]))) = Pending \<and>
   outcome (waitForDeployment ''hello'' 1000 False None
      (in_turn (map PodsInfo [[], [], [], []]) @ Fire # [Answer (PodsInfo []), Fire])) =
     Rejected (JsString (''Unable to retrieve the status of the '' @ ''hello'' @ '' deployment'')) \<and>
   queries (waitForDeployment ''hello'' 1000 False None
      (in_turn (map PodsInfo [[], [], [], []]) @ Fire # [Answer (PodsInfo []), Fire])) =
   queries (waitForDeployment ''hello'' 1000 False None
      (in_turn (map PodsInfo [[], [], [], []]) @ [Fire]))"
proof -
  have e: "list_all (\<lambda>items. functionPods ''hello'' 1000 items = Some []) [[], [], [], []]"
    by (simp add: functionPods_def)
  have i: "\<not> cleared (poll_init None)" "thrown (poll_init None) = None"
    "answered (poll_init None) = queries (poll_init None)"
    "retries (poll_init None) + length [[], [], [], []::pod list] = 4"
    "outcome (poll_init None) = Pending"
    by (simp_all add: poll_init_def)
  from give_up_at_the_firing_after_the_fourth_empty_answer
    [OF e i, of False "PodsInfo []" "poll_init None" "[Answer (PodsInfo []), Fire]"]
  show ?thesis unfolding waitForDeployment_def by blast
qed

text \<open>
  Claim C4 as stated fails: after four consecutive ticks without a matching pod the poll
  has not failed, and the interval has not been cleared, so a fifth tick is issued.
\<close>

theorem four_empty_ticks_still_pending:
  "outcome (waitForDeployment ''hello'' 1000 False None
      (in_turn [PodsInfo [], PodsInfo [], PodsInfo [], PodsInfo []])) = Pending \<and>
   \<not> cleared (waitForDeployment ''hello'' 1000 False None
      (in_turn [PodsInfo [], PodsInfo [], PodsInfo [], PodsInfo []]))"
  by code_simp

subsection \<open>Pods without container statuses\<close>

text \<open>
  Claim C10, as the code has it.  When the listing of an answer has a pod of the function
  without the field \<open>containerStatuses\<close> (and none with an empty array of statuses, which
  would throw), that pod counts neither as running nor as crash-looping: the inspection
  is the one of the other pods, and the pods cannot all count as running.  The answer
  does not resolve the promise, does not increment \<open>retries\<close> and does not increment the
  stability counter, which the verbose option resets to 0.  When no pod of the function
  has the field, the answer leaves the interval, the exit code and the promise as they
  are as well; with the verbose option it logs the snapshot (one \<open>unknown\<close> per pod) if
  it differs from the previous one, and stores it; without it nothing is logged.
\<close>

theorem pod_without_statuses_counts_for_nothing:
  assumes "functionPods f rm items = Some fps" and "p \<in> set fps"
    and "containerStatuses p = None"
    and "list_all (\<lambda>q. containerStatuses q \<noteq> Some []) fps" and "thrown s = None"
  shows
    "inspect_pods fps n s =
       inspect_pods (filter (\<lambda>q. is_object (containerStatuses q)) fps) n s \<and>
     fst (inspect_pods fps n s) < n + length fps \<and>
     outcome (on_pods f rm v (PodsInfo items) s) = outcome s \<and>
     retries (on_pods f rm v (PodsInfo items) s) = retries s \<and>
     successfulCount (on_pods f rm v (PodsInfo items) s) \<le> successfulCount s \<and>
     (v \<longrightarrow> successfulCount (on_pods f rm v (PodsInfo items) s) = 0) \<and>
     (list_all (\<lambda>q. containerStatuses q = None) fps \<longrightarrow>
        cleared (on_pods f rm v (PodsInfo items) s) = cleared s \<and>
        exitCode (on_pods f rm v (PodsInfo items) s) = exitCode s \<and>
        thrown (on_pods f rm v (PodsInfo items) s) = None \<and>
        (v \<longrightarrow>
           previousPodStatus (on_pods f rm v (PodsInfo items) s) =
             Some (replicate (length fps) ''unknown'') \<and>
           logged (on_pods f rm v (PodsInfo items) s) =
             logged s @
             (if previousPodStatus s = Some (replicate (length fps) ''unknown'') then []
              else [''Pods status: '' @ join '','' (replicate (length fps) ''unknown'')])) \<and>
        (\<not> v \<longrightarrow>
           logged (on_pods f rm v (PodsInfo items) s) = logged s \<and>
           previousPodStatus (on_pods f rm v (PodsInfo items) s) = previousPodStatus s))"
proof -
  let ?with = "filter (\<lambda>q. is_object (containerStatuses q)) fps"
  define a where "a = on_pods f rm v (PodsInfo items) s"
  have skip: "inspect_pods fps k u = inspect_pods ?with k u" for k u
    by (rule inspect_pods_skips_bare)
  from assms(2,3) have less: "length ?with < length fps"
    by (intro length_filter_less [of p]) simp_all
  have bound: "fst (inspect_pods fps k u) < k + length fps" for k u
  proof -
    obtain m u' where run: "inspect_pods ?with k u = (m, u')"
      by (cases "inspect_pods ?with k u")
    from inspect_pods_count [OF run] less have "m < k + length fps" by simp
    with run show ?thesis by (simp add: skip)
  qed
  obtain m s1 where run: "inspect_pods fps 0 s = (m, s1)" by (cases "inspect_pods fps 0 s")
  from bound [of 0 s] run have m: "m \<noteq> length fps" by simp
  from assms(2) have ne: "fps \<noteq> []" by auto
  from inspect_pods_frame [OF run]
  have fr: "retries s1 = retries s" "successfulCount s1 = successfulCount s"
    "previousPodStatus s1 = previousPodStatus s" "outcome s1 = outcome s" by auto
  from inspect_pods_no_throw [OF run assms(4)] assms(5) have th: "thrown s1 = None" by simp
  from pod_statuses_defined [OF assms(4)] obtain st where st: "pod_statuses fps = Some st"
    by auto
  have a: "a = (if v then
         (if previousPodStatus s1 = Some st then s1\<lparr> successfulCount := 0 \<rparr>
          else s1\<lparr> successfulCount := 0,
                 logged := logged s1 @ [''Pods status: '' @ join '','' st],
                 previousPodStatus := Some st \<rparr>)
       else s1)"
    using assms(1) run ne m th st by (simp add: a_def on_pods_def Let_def)
  have general: "outcome a = outcome s" "retries a = retries s"
    "successfulCount a \<le> successfulCount s" "v \<longrightarrow> successfulCount a = 0"
    using fr by (simp_all add: a)
  have bare: "list_all (\<lambda>q. containerStatuses q = None) fps \<longrightarrow>
        cleared a = cleared s \<and> exitCode a = exitCode s \<and> thrown a = None \<and>
        (v \<longrightarrow>
           previousPodStatus a = Some (replicate (length fps) ''unknown'') \<and>
           logged a =
             logged s @
             (if previousPodStatus s = Some (replicate (length fps) ''unknown'') then []
              else [''Pods status: '' @ join '','' (replicate (length fps) ''unknown'')])) \<and>
        (\<not> v \<longrightarrow> logged a = logged s \<and> previousPodStatus a = previousPodStatus s)"
  proof
    assume all: "list_all (\<lambda>q. containerStatuses q = None) fps"
    from inspect_pods_no_statuses [OF all, of 0 s] run have s1: "s1 = s" by simp
    from pod_statuses_no_statuses [OF all] st
    have st': "st = replicate (length fps) ''unknown''" by simp
    show "cleared a = cleared s \<and> exitCode a = exitCode s \<and> thrown a = None \<and>
        (v \<longrightarrow>
           previousPodStatus a = Some (replicate (length fps) ''unknown'') \<and>
           logged a =
             logged s @
             (if previousPodStatus s = Some (replicate (length fps) ''unknown'') then []
              else [''Pods status: '' @ join '','' (replicate (length fps) ''unknown'')])) \<and>
        (\<not> v \<longrightarrow> logged a = logged s \<and> previousPodStatus a = previousPodStatus s)"
      using assms(5) by (simp add: a s1 st')
  qed
  from skip [of n s] bound [of n s] general bare show ?thesis unfolding a_def by blast
qed

text \<open>
  The theorem for a listing with a pod of \<open>hello\<close> that has no container statuses yet
  next to a ready one, after a fully ready tick: the promise stays pending and the
  counter is not incremented.
\<close>

theorem pod_without_statuses_counts_for_nothing_witness:
  "outcome (on_pods ''hello'' 1000 False
      (PodsInfo [sample_pod ''hello'' 1000 None, sample_pod ''hello'' 1000 (Some (True, 0))])
      ((poll_init None)\<lparr> successfulCount := 1, queries := 2, answered := 2 \<rparr>)) = Pending \<and>
   successfulCount (on_pods ''hello'' 1000 False
      (PodsInfo [sample_pod ''hello'' 1000 None, sample_pod ''hello'' 1000 (Some (True, 0))])
      ((poll_init None)\<lparr> successfulCount := 1, queries := 2, answered := 2 \<rparr>)) \<le> 1"
proof -
  have fp: "functionPods ''hello'' 1000
      [sample_pod ''hello'' 1000 None, sample_pod ''hello'' 1000 (Some (True, 0))] =
    Some [sample_pod ''hello'' 1000 None, sample_pod ''hello'' 1000 (Some (True, 0))]"
    by (simp add: functionPods_def function_label_def sample_pod_def)
  have h: "sample_pod ''hello'' 1000 None
      \<in> set [sample_pod ''hello'' 1000 None, sample_pod ''hello'' 1000 (Some (True, 0))]"
    "containerStatuses (sample_pod ''hello'' 1000 None) = None"
    "list_all (\<lambda>q. containerStatuses q \<noteq> Some [])
       [sample_pod ''hello'' 1000 None, sample_pod ''hello'' 1000 (Some (True, 0))]"
    "thrown ((poll_init None)\<lparr> successfulCount := 1, queries := 2, answered := 2 \<rparr>) = None"
    by (simp_all add: sample_pod_def poll_init_def)
  from pod_without_statuses_counts_for_nothing [OF fp h, of 0 False]
  show ?thesis by (simp add: poll_init_def)
qed

text \<open>
  Claim C10 as stated fails: with the verbose option, a tick on which the only matching
  pod has no \<open>containerStatuses\<close> changes the poll state beyond the log snapshot, since
  the stability counter reached on the tick before is reset.
\<close>

theorem verbose_tick_without_statuses_resets_count:
  "successfulCount (waitForDeployment ''hello'' 1000 True None
      (in_turn [PodsInfo [sample_pod ''hello'' 1000 (Some (True, 0))]])) = 1 \<and>
   successfulCount (waitForDeployment ''hello'' 1000 True None
      (in_turn [PodsInfo [sample_pod ''hello'' 1000 (Some (True, 0))],
                PodsInfo [sample_pod ''hello'' 1000 None]])) = 0"
  by code_simp

section \<open>Properties of the submitter, the provisioner and the batch\<close>

subsection \<open>The request timestamp\<close>

lemma request_moment_floor: "request_moment now = 1000 * (now div 1000)"
  unfolding request_moment_def by (simp add: minus_mod_eq_mult_div)

lemma request_moment_le_iff: "request_moment now \<le> c \<longleftrightarrow> now div 1000 \<le> c div 1000"
proof
  assume "request_moment now \<le> c"
  then have "1000 * (now div 1000) \<le> c" by (simp add: request_moment_floor)
  then have "(1000 * (now div 1000)) div 1000 \<le> c div 1000" by (rule zdiv_mono1) simp
  then show "now div 1000 \<le> c div 1000" by simp
next
  assume "now div 1000 \<le> c div 1000"
  then have "1000 * (now div 1000) \<le> 1000 * (c div 1000)" by simp
  also have "1000 * (c div 1000) = c - c mod 1000" by (simp add: minus_mod_eq_mult_div)
  also have "\<dots> \<le> c" by simp
  finally show "request_moment now \<le> c" by (simp add: request_moment_floor)
qed

lemma function_label_labelled: "function_label p = Some f \<Longrightarrow> is_object (pod_labels p)"
  by (cases "pod_labels p") (simp_all add: function_label_def)

text \<open>A poll in which a single ready pod of the function is listed twice, in turn.\<close>

lemma poll_ready_twice:
  assumes "functionPods f rm [p] = Some [p]" and "containerStatuses p = Some (c # cs)"
    and "ready c"
  shows "outcome (waitForDeployment f rm v ec (in_turn [PodsInfo [p], PodsInfo [p]])) = Resolved ()"
  using assms
  by (simp add: waitForDeployment_def poll_init_def fire_def give_up_check_def on_pods_def
      settle_def)

text \<open>A poll in which no pod of the function is listed, twice, in turn.\<close>

lemma poll_empty_twice:
  assumes "functionPods f rm items = Some []"
  shows "outcome (waitForDeployment f rm v ec (in_turn [PodsInfo items, PodsInfo items])) = Pending \<and>
         retries (waitForDeployment f rm v ec (in_turn [PodsInfo items, PodsInfo items])) = 2"
  using assms
  by (simp add: waitForDeployment_def poll_init_def fire_def give_up_check_def on_pods_def)

text \<open>
  Claim C9.  Both submitters hand the poller the clock with its milliseconds set to 0: a
  multiple of 1000 in the same second as the submission.  The poller keeps, of a listing
  in which every pod has labels, exactly the pods of the function created in that second
  or later.  So a ready pod of the function created in the second of the submission,
  even before its instant, lets the poll resolve and the submission succeed, and one
  created in an earlier second is not seen: the poll counts a retry for each listing.
\<close>

theorem request_moment_admits_same_second:
  assumes "function_label p = Some (meta_name body)"
    and "containerStatuses p = Some (c # cs)" and "ready c"
  shows
    "request_moment now mod 1000 = 0 \<and>
     request_moment now div 1000 = now div 1000 \<and>
     submit_poll (deployFunctionAndWait body v now SubmitOk ec es) =
       Some (waitForDeployment (meta_name body) (request_moment now) v ec es) \<and>
     submit_poll (redeployFunctionAndWait body v now SubmitOk ec es) =
       Some (waitForDeployment (meta_name body) (request_moment now) v ec es) \<and>
     (list_all (\<lambda>q. is_object (pod_labels q)) items \<longrightarrow>
        functionPods f (request_moment now) items =
          Some (filter (\<lambda>q. function_label q = Some f \<and>
                            now div 1000 \<le> creationTimestamp q div 1000) items)) \<and>
     (now div 1000 \<le> creationTimestamp p div 1000 \<longrightarrow>
        submit_outcome (deployFunctionAndWait body v now SubmitOk ec
            (in_turn [PodsInfo [p], PodsInfo [p]])) = Resolved True \<and>
        submit_outcome (redeployFunctionAndWait body v now SubmitOk ec
            (in_turn [PodsInfo [p], PodsInfo [p]])) = Resolved True) \<and>
     (creationTimestamp p div 1000 < now div 1000 \<longrightarrow>
        submit_outcome (deployFunctionAndWait body v now SubmitOk ec
            (in_turn [PodsInfo [p], PodsInfo [p]])) = Pending \<and>
        map_option retries (submit_poll (deployFunctionAndWait body v now SubmitOk ec
            (in_turn [PodsInfo [p], PodsInfo [p]]))) = Some 2)"
proof -
  let ?two = "in_turn [PodsInfo [p], PodsInfo [p]]"
  have poll: "submit_poll (deployFunctionAndWait body v now SubmitOk ec es') =
       Some (waitForDeployment (meta_name body) (request_moment now) v ec es')"
    "submit_poll (redeployFunctionAndWait body v now SubmitOk ec es') =
       Some (waitForDeployment (meta_name body) (request_moment now) v ec es')"
    "submit_outcome (deployFunctionAndWait body v now SubmitOk ec es') =
       then_resolve_true (outcome (waitForDeployment (meta_name body) (request_moment now) v ec es'))"
    "submit_outcome (redeployFunctionAndWait body v now SubmitOk ec es') =
       then_resolve_true (outcome (waitForDeployment (meta_name body) (request_moment now) v ec es'))"
    for es'
    by (simp_all add: deployFunctionAndWait_def redeployFunctionAndWait_def Let_def)
  have ms: "request_moment now mod 1000 = 0" "request_moment now div 1000 = now div 1000"
    by (simp_all add: request_moment_floor)
  have filt: "list_all (\<lambda>q. is_object (pod_labels q)) items \<longrightarrow>
        functionPods f (request_moment now) items =
          Some (filter (\<lambda>q. function_label q = Some f \<and>
                            now div 1000 \<le> creationTimestamp q div 1000) items)"
    by (simp add: functionPods_def request_moment_le_iff)
  from function_label_labelled [OF assms(1)] have lab: "is_object (pod_labels p)" .
  have kept: "now div 1000 \<le> creationTimestamp p div 1000 \<longrightarrow>
        submit_outcome (deployFunctionAndWait body v now SubmitOk ec ?two) = Resolved True \<and>
        submit_outcome (redeployFunctionAndWait body v now SubmitOk ec ?two) = Resolved True"
  proof
    assume "now div 1000 \<le> creationTimestamp p div 1000"
    with lab assms(1) have "functionPods (meta_name body) (request_moment now) [p] = Some [p]"
      by (simp add: functionPods_def request_moment_le_iff)
    from poll_ready_twice [OF this assms(2,3), of v ec]
    show "submit_outcome (deployFunctionAndWait body v now SubmitOk ec ?two) = Resolved True \<and>
        submit_outcome (redeployFunctionAndWait body v now SubmitOk ec ?two) = Resolved True"
      by (simp add: poll)
  qed
  have dropped: "creationTimestamp p div 1000 < now div 1000 \<longrightarrow>
        submit_outcome (deployFunctionAndWait body v now SubmitOk ec ?two) = Pending \<and>
        map_option retries (submit_poll (deployFunctionAndWait body v now SubmitOk ec ?two)) =
          Some 2"
  proof
    assume "creationTimestamp p div 1000 < now div 1000"
    with lab have "functionPods (meta_name body) (request_moment now) [p] = Some []"
      by (simp add: functionPods_def request_moment_le_iff)
    from poll_empty_twice [OF this, of v ec]
    show "submit_outcome (deployFunctionAndWait body v now SubmitOk ec ?two) = Pending \<and>
        map_option retries (submit_poll (deployFunctionAndWait body v now SubmitOk ec ?two)) =
          Some 2"
      by (simp add: poll)
  qed
  from poll(1,2) [of es] ms filt kept dropped show ?thesis by blast
qed

text \<open>
  The theorem for a submission of \<open>hello\<close> at 1500 ms and a ready pod created at 1200 ms:
  the pod is older than the submission, and the submission succeeds.
\<close>

theorem request_moment_admits_same_second_witness:
  "creationTimestamp (sample_pod ''hello'' 1200 (Some (True, 0))) < 1500 \<and>
   submit_outcome (deployFunctionAndWait (sample_manifest ''hello'') False 1500 SubmitOk None
      (in_turn [PodsInfo [sample_pod ''hello'' 1200 (Some (True, 0))],
                PodsInfo [sample_pod ''hello'' 1200 (Some (True, 0))]])) = Resolved True"
proof -
  have h: "function_label (sample_pod ''hello'' 1200 (Some (True, 0))) =
      Some (meta_name (sample_manifest ''hello''))"
    "containerStatuses (sample_pod ''hello'' 1200 (Some (True, 0))) =
      Some (\<lparr> ready = True, restartCount = 0, state_json = ''{}'' \<rparr> # [])"
    "ready \<lparr> ready = True, restartCount = 0, state_json = ''{}'' \<rparr>"
    by (simp_all add: sample_pod_def sample_manifest_def function_label_def)
  have t: "creationTimestamp (sample_pod ''hello'' 1200 (Some (True, 0))) = 1200"
    by (simp add: sample_pod_def)
  from request_moment_admits_same_second [OF h, of 1500 False None "[]" "[]" "''hello''"]
  show ?thesis by (simp add: t)
qed

subsection \<open>The ingress provisioner\<close>

text \<open>
  Claim C8.  \<open>addIngressRuleIfNecessary\<close> posts nothing when the event type is not
  \<open>http\<close>, or when the path is missing, empty or \<open>/\<close> and no host name is given;
  otherwise it posts exactly one document.  The path of that document is the given path
  (the empty text when missing), with \<open>/\<close> put in front unless it starts with \<open>/\<close>;
  its host is the given host name or else the one derived from the API URL; it is named
  \<open>ingress-\<close> and the function, and routes to port 8080 of the service of the function.
\<close>

theorem ingress_rule_only_when_necessary:
  "ingress_posted (addIngressRuleIfNecessary f ty path host v api resp) =
     (if ty \<noteq> ''http'' \<or>
         ((path = None \<or> path = Some [] \<or> path = Some ''/'') \<and> \<not> truthy host)
      then []
      else [\<lparr> ingress_name = ''ingress-'' @ f, ingress_label = f,
               ingress_host = or_default host (api @ ''.nip.io''),
               ingress_path =
                 (if starts_with (or_default path []) ''/'' then or_default path []
                  else ''/'' @ or_default path []),
               ingress_serviceName = f, ingress_servicePort = 8080 \<rparr>]) \<and>
   map ingress_path (ingress_posted (addIngressRuleIfNecessary f ty path host v api resp)) =
     (if ty \<noteq> ''http'' \<or>
         ((path = None \<or> path = Some [] \<or> path = Some ''/'') \<and> \<not> truthy host)
      then []
      else [if starts_with (or_default path []) ''/'' then or_default path []
            else ''/'' @ or_default path []])"
proof (cases path)
  case None
  then show ?thesis
    by (cases resp)
       (simp_all add: addIngressRuleIfNecessary_def getIngressDescription_def Let_def)
next
  case (Some s)
  show ?thesis
  proof (cases s)
    case Nil
    with Some show ?thesis
      by (cases resp)
         (simp_all add: addIngressRuleIfNecessary_def getIngressDescription_def Let_def)
  next
    case (Cons c cs)
    with Some show ?thesis
      by (cases resp)
         (auto simp: addIngressRuleIfNecessary_def getIngressDescription_def Let_def)
  qed
qed

text \<open>
  The theorem for the event \<open>http\<close> with the path \<open>foo\<close> and no host name, with the
  path \<open>/\<close>, and for the event \<open>trigger\<close>.
\<close>

theorem ingress_rule_only_when_necessary_witness:
  "ingress_posted (addIngressRuleIfNecessary ''hello'' ''http'' (Some ''foo'') None False
       ''1.2.3.4'' None) =
     [\<lparr> ingress_name = ''ingress-hello'', ingress_label = ''hello'',
        ingress_host = ''1.2.3.4.nip.io'', ingress_path = ''/foo'',
        ingress_serviceName = ''hello'', ingress_servicePort = 8080 \<rparr>] \<and>
   map ingress_path (ingress_posted (addIngressRuleIfNecessary ''hello'' ''http'' (Some ''/bar'')
       (Some ''example.com'') False ''1.2.3.4'' None)) = [''/bar''] \<and>
   ingress_posted (addIngressRuleIfNecessary ''hello'' ''http'' (Some ''/'') None False
       ''1.2.3.4'' None) = [] \<and>
   ingress_posted (addIngressRuleIfNecessary ''hello'' ''trigger'' (Some ''/foo'') (Some ''example.com'')
       False ''1.2.3.4'' None) = []"
  using ingress_rule_only_when_necessary
      [of "''hello''" "''http''" "Some ''foo''" None False "''1.2.3.4''" None]
    ingress_rule_only_when_necessary
      [of "''hello''" "''http''" "Some ''/bar''" "Some ''example.com''" False "''1.2.3.4''" None]
    ingress_rule_only_when_necessary
      [of "''hello''" "''http''" "Some ''/''" None False "''1.2.3.4''" None]
    ingress_rule_only_when_necessary
      [of "''hello''" "''trigger''" "Some ''/foo''" "Some ''example.com''" False "''1.2.3.4''" None]
  by simp

subsection \<open>The submitter\<close>

lemma then_resolve_true_iff: "then_resolve_true p = Resolved True \<longleftrightarrow> p = Resolved ()"
  by (cases p) simp_all

lemma submit_outcome_deploy_true:
  "submit_outcome (deployFunctionAndWait body v now response ec pods) = Resolved True \<longleftrightarrow>
     response = SubmitOk \<and>
     outcome (waitForDeployment (meta_name body) (request_moment now) v ec pods) = Resolved ()"
  by (cases response) (simp_all add: deployFunctionAndWait_def Let_def then_resolve_true_iff)

lemma finish_ingress:
  "pair_ingress (finish opts d ev b lines posted put submission p redeployed) =
     (if p = Resolved True \<and> \<not> redeployed then
        Some (addIngressRuleIfNecessary (func_id d) (event_type ev) (event_path ev)
               (js_or (event_hostname ev) (opt_hostname opts))
               (opt_verbose opts) (api_hostname b) (ingress_answer b))
      else None)"
proof (cases p)
  case Pending
  then show ?thesis by (simp add: finish_def)
next
  case (Resolved x)
  then show ?thesis by (cases x) (simp_all add: finish_def after_deployment_def Let_def)
next
  case (Rejected e)
  then show ?thesis by (simp add: finish_def after_deployment_def)
qed

lemma finish_fields:
  "pair_posted (finish opts d ev b lines posted put submission p redeployed) = posted \<and>
   pair_put (finish opts d ev b lines posted put submission p redeployed) = put \<and>
   pair_submission (finish opts d ev b lines posted put submission p redeployed) = submission \<and>
   pair_thrown (finish opts d ev b lines posted put submission p redeployed) = None"
proof (cases p)
  case Pending
  then show ?thesis by (simp add: finish_def)
next
  case (Resolved x)
  then show ?thesis by (simp add: finish_def split: prod.splits)
next
  case (Rejected e)
  then show ?thesis by (simp add: finish_def split: prod.splits)
qed

lemma finish_not_deployed:
  "finish opts d ev b lines posted put submission (Resolved False) redeployed =
     \<lparr> pair_logged = lines, pair_posted = posted, pair_put = put,
       pair_submission = submission, pair_ingress = None, pair_errors = [],
       pair_counted = True, pair_thrown = None \<rparr>"
  by (simp add: finish_def after_deployment_def)

lemma ingress_posted_length:
  "length (ingress_posted (addIngressRuleIfNecessary f ty path host v api resp)) \<le> 1"
  by (cases resp) (simp_all add: addIngressRuleIfNecessary_def Let_def)

text \<open>
  Claim C6.  When the \<open>post\<close> of \<open>deployFunctionAndWait\<close> is answered with the code
  409, the promise resolves with \<open>false\<close> after the hint to redeploy with \<open>--force\<close> is
  logged, and the poller is not called; any other error of the \<open>post\<close> rejects the
  promise, again without the poller.  In the batch such a conflict pushes nothing to
  \<open>errors\<close>, calls no ingress provisioning, and the pair counts as completed.
\<close>

theorem conflict_on_create_is_not_an_error:
  "deployFunctionAndWait body v now (SubmitError (Some 409) msg) ec pods =
     \<lparr> submit_outcome = Resolved False,
       submit_logged =
         [''Deploying function '' @ meta_name body @ ''...'',
          ''The function '' @ meta_name body @ '' already exists. '' @
          ''Redeploy it usign --force or executing '' @
          [CHR 0x22] @ ''sls deploy function -f '' @ meta_name body @ [CHR 0x22] @ ''.''],
       submit_poll = None \<rparr> \<and>
   (code \<noteq> Some 409 \<longrightarrow>
      submit_outcome (deployFunctionAndWait body v now (SubmitError code msg) ec pods) =
        Rejected (JsError
          (''Unable to deploy the function '' @ meta_name body @ ''. Received:'' @ newline @
           ''  Code: '' @ code_text code @ newline @ ''  Message: '' @ msg)) \<and>
      submit_poll (deployFunctionAndWait body v now (SubmitError code msg) ec pods) = None) \<and>
   (functions_answer b = Inr items \<and> classify opts funcs items = Create \<and>
    submit_answer b = SubmitError (Some 409) msg \<longrightarrow>
      pair_errors (deploy_pair opts d ev funcs b) = [] \<and>
      pair_ingress (deploy_pair opts d ev funcs b) = None \<and>
      pair_counted (deploy_pair opts d ev funcs b) \<and>
      pair_thrown (deploy_pair opts d ev funcs b) = None)"
proof -
  have conflict: "deployFunctionAndWait body v now (SubmitError (Some 409) msg) ec pods =
     \<lparr> submit_outcome = Resolved False,
       submit_logged =
         [''Deploying function '' @ meta_name body @ ''...'',
          ''The function '' @ meta_name body @ '' already exists. '' @
          ''Redeploy it usign --force or executing '' @
          [CHR 0x22] @ ''sls deploy function -f '' @ meta_name body @ [CHR 0x22] @ ''.''],
       submit_poll = None \<rparr>" for body v now ec pods
    by (simp add: deployFunctionAndWait_def Let_def)
  have other: "code \<noteq> Some 409 \<longrightarrow>
      submit_outcome (deployFunctionAndWait body v now (SubmitError code msg) ec pods) =
        Rejected (JsError
          (''Unable to deploy the function '' @ meta_name body @ ''. Received:'' @ newline @
           ''  Code: '' @ code_text code @ newline @ ''  Message: '' @ msg)) \<and>
      submit_poll (deployFunctionAndWait body v now (SubmitError code msg) ec pods) = None"
    by (simp add: deployFunctionAndWait_def Let_def)
  have batch: "functions_answer b = Inr items \<and> classify opts funcs items = Create \<and>
    submit_answer b = SubmitError (Some 409) msg \<longrightarrow>
      pair_errors (deploy_pair opts d ev funcs b) = [] \<and>
      pair_ingress (deploy_pair opts d ev funcs b) = None \<and>
      pair_counted (deploy_pair opts d ev funcs b) \<and>
      pair_thrown (deploy_pair opts d ev funcs b) = None"
    by (simp add: deploy_pair_def Let_def conflict finish_not_deployed)
  from conflict other batch show ?thesis by blast
qed

text \<open>
  The theorem for the code 500, and for a conflict on the creation of \<open>hello\<close> in a
  batch.
\<close>

theorem conflict_on_create_is_not_an_error_witness:
  "submit_outcome (deployFunctionAndWait (sample_manifest ''hello'') False 1500
       (SubmitError (Some 500) ''boom'') None []) =
     Rejected (JsError (''Unable to deploy the function hello. Received:'' @ newline @
       ''  Code: 500'' @ newline @ ''  Message: boom'')) \<and>
   pair_errors (deploy_pair (sample_options False) (sample_function ''hello'' (Some ''h.hello'') [])
       (http_event (Some ''/foo'')) (sample_manifest ''hello'')
       (sample_backend [] (SubmitError (Some 409) ''boom'') [] None)) = [] \<and>
   pair_counted (deploy_pair (sample_options False) (sample_function ''hello'' (Some ''h.hello'') [])
       (http_event (Some ''/foo'')) (sample_manifest ''hello'')
       (sample_backend [] (SubmitError (Some 409) ''boom'') [] None))"
proof -
  have code: "string_of_nat 500 = ''500''" by code_simp
  have cl: "classify (sample_options False) (sample_manifest ''hello'') [] = Create"
    by (simp add: classify_def)
  have name: "meta_name (sample_manifest ''hello'') = ''hello''"
    by (simp add: sample_manifest_def)
  have b: "functions_answer (sample_backend [] (SubmitError (Some 409) ''boom'') [] None) = Inr []"
    "submit_answer (sample_backend [] (SubmitError (Some 409) ''boom'') [] None) =
       SubmitError (Some 409) ''boom''"
    by (simp_all add: sample_backend_def)
  show ?thesis
    using conflict_on_create_is_not_an_error
        [of "sample_manifest ''hello''" False 1500 "''boom''" None "[]" "Some 500"
            "sample_backend [] (SubmitError (Some 409) ''boom'') [] None" "[]"
            "sample_options False" "sample_manifest ''hello''"
            "sample_function ''hello'' (Some ''h.hello'') []" "http_event (Some ''/foo'')"]
    by (simp add: code cl name b)
qed

subsection \<open>Ingress provisioning in the batch\<close>

text \<open>
  Claim C7.  For one function and event, \<open>addIngressRuleIfNecessary\<close> is called exactly
  when the listing succeeded, the creation branch was taken (the function is neither
  unchanged nor redeployed with \<open>force\<close>), the \<open>post\<close> succeeded (no conflict, no error)
  and the poller resolved.  It is called at most once, with the arguments of the pair,
  and posts at most one document.
\<close>

theorem ingress_only_after_fresh_creation:
  "(pair_ingress (deploy_pair opts d ev funcs b) \<noteq> None \<longleftrightarrow>
      (\<exists>items. functions_answer b = Inr items \<and> classify opts funcs items = Create) \<and>
      submit_answer b = SubmitOk \<and>
      outcome (waitForDeployment (meta_name funcs) (request_moment (clock b)) (opt_verbose opts)
                 (exit_code0 b) (pods_answers b)) = Resolved ()) \<and>
   (functions_answer b = Inr items \<and> classify opts funcs items \<noteq> Create \<longrightarrow>
      pair_ingress (deploy_pair opts d ev funcs b) = None) \<and>
   (submit_answer b = SubmitError code msg \<longrightarrow>
      pair_ingress (deploy_pair opts d ev funcs b) = None) \<and>
   (pair_ingress (deploy_pair opts d ev funcs b) \<noteq> None \<longrightarrow>
      pair_posted (deploy_pair opts d ev funcs b) = [funcs] \<and>
      pair_put (deploy_pair opts d ev funcs b) = []) \<and>
   (\<forall>p. pair_ingress (deploy_pair opts d ev funcs b) = Some p \<longrightarrow>
      p = addIngressRuleIfNecessary (func_id d) (event_type ev) (event_path ev)
            (js_or (event_hostname ev) (opt_hostname opts))
            (opt_verbose opts) (api_hostname b) (ingress_answer b) \<and>
      length (ingress_posted p) \<le> 1)"
proof (cases "functions_answer b")
  case (Inl err)
  then show ?thesis by (simp add: deploy_pair_def)
next
  case (Inr its)
  show ?thesis
  proof (cases "classify opts funcs its")
    case Skip
    with Inr show ?thesis by (auto simp: deploy_pair_def finish_ingress)
  next
    case Redeploy
    with Inr show ?thesis by (auto simp: deploy_pair_def Let_def finish_ingress)
  next
    case Create
    with Inr show ?thesis
      by (auto simp: deploy_pair_def Let_def finish_ingress finish_fields
          submit_outcome_deploy_true ingress_posted_length [unfolded One_nat_def]
          split: if_splits)
  qed
qed

text \<open>
  The theorem for a fresh creation of \<open>hello\<close> followed by two ready listings: the
  provisioning is called and posts the rule for \<open>/foo\<close>.
\<close>

theorem ingress_only_after_fresh_creation_witness:
  "map_option ingress_posted
     (pair_ingress (deploy_pair (sample_options False)
        (sample_function ''hello'' (Some ''h.hello'') [])
        (http_event (Some ''/foo'')) (sample_manifest ''hello'')
        (sample_backend [] SubmitOk ready_twice None))) =
     Some [getIngressDescription ''hello'' ''/foo'' ''1.2.3.4.nip.io''] \<and>
   pair_posted (deploy_pair (sample_options False)
        (sample_function ''hello'' (Some ''h.hello'') [])
        (http_event (Some ''/foo'')) (sample_manifest ''hello'')
        (sample_backend [] SubmitOk ready_twice None)) = [sample_manifest ''hello'']"
proof -
  have cl: "classify (sample_options False) (sample_manifest ''hello'') [] = Create"
    by (simp add: classify_def)
  have w: "outcome (waitForDeployment ''hello'' 1000 False None ready_twice) = Resolved ()"
    by code_simp
  have rm: "request_moment 1500 = 1000" by (simp add: request_moment_def)
  have name: "meta_name (sample_manifest ''hello'') = ''hello''"
    by (simp add: sample_manifest_def)
  have b: "functions_answer (sample_backend [] SubmitOk ready_twice None) = Inr []"
    "submit_answer (sample_backend [] SubmitOk ready_twice None) = SubmitOk"
    "clock (sample_backend [] SubmitOk ready_twice None) = 1500"
    "exit_code0 (sample_backend [] SubmitOk ready_twice None) = None"
    "pods_answers (sample_backend [] SubmitOk ready_twice None) = ready_twice"
    "ingress_answer (sample_backend [] SubmitOk ready_twice None) = None"
    "api_hostname (sample_backend [] SubmitOk ready_twice None) = ''1.2.3.4''"
    by (simp_all add: sample_backend_def)
  have o: "opt_verbose (sample_options False) = False" "opt_hostname (sample_options False) = None"
    by (simp_all add: sample_options_def)
  have e: "event_type (http_event (Some ''/foo'')) = ''http''"
    "event_path (http_event (Some ''/foo'')) = Some ''/foo''"
    "event_hostname (http_event (Some ''/foo'')) = None"
    by (simp_all add: http_event_def)
  have i: "func_id (sample_function ''hello'' (Some ''h.hello'') []) = ''hello''"
    by (simp add: sample_function_def)
  have ing: "ingress_posted (addIngressRuleIfNecessary ''hello'' ''http'' (Some ''/foo'')
       (js_or None None) False ''1.2.3.4'' None) =
     [getIngressDescription ''hello'' ''/foo'' ''1.2.3.4.nip.io'']"
    by (simp add: addIngressRuleIfNecessary_def js_or_def Let_def)
  show ?thesis
    using ingress_only_after_fresh_creation
      [of "sample_options False" "sample_function ''hello'' (Some ''h.hello'') []"
          "http_event (Some ''/foo'')" "sample_manifest ''hello''"
          "sample_backend [] SubmitOk ready_twice None" "[]" None "[]"]
    by (auto simp: cl w rm name b o e i ing)
qed

text \<open>
  Claim C5 does not hold of the code where the poller fails.  Both submitters chain
  \<open>.then(() => { resolve(true); })\<close> on the poller and nothing else, so after a
  successful submission their promise is never rejected, whatever the poller does.  With
  five listings without a pod of \<open>hello\<close> the poller rejects with the timeout message and
  the promise of the submitter stays pending.
\<close>

theorem poller_rejection_is_dropped:
  "(\<forall>body v now ec pods e.
      submit_outcome (deployFunctionAndWait body v now SubmitOk ec pods) \<noteq> Rejected e \<and>
      submit_outcome (redeployFunctionAndWait body v now SubmitOk ec pods) \<noteq> Rejected e) \<and>
   map_option outcome (submit_poll (deployFunctionAndWait (sample_manifest ''hello'') False 1500
       SubmitOk None
       (in_turn [PodsInfo [], PodsInfo [], PodsInfo [], PodsInfo [], PodsInfo []]))) =
     Some (Rejected (JsString ''Unable to retrieve the status of the hello deployment'')) \<and>
   submit_outcome (deployFunctionAndWait (sample_manifest ''hello'') False 1500
       SubmitOk None
       (in_turn [PodsInfo [], PodsInfo [], PodsInfo [], PodsInfo [], PodsInfo []])) = Pending \<and>
   map_option outcome (submit_poll (redeployFunctionAndWait (sample_manifest ''hello'') False 1500
       SubmitOk None
       (in_turn [PodsInfo [], PodsInfo [], PodsInfo [], PodsInfo [], PodsInfo []]))) =
     Some (Rejected (JsString ''Unable to retrieve the status of the hello deployment'')) \<and>
   submit_outcome (redeployFunctionAndWait (sample_manifest ''hello'') False 1500
       SubmitOk None
       (in_turn [PodsInfo [], PodsInfo [], PodsInfo [], PodsInfo [], PodsInfo []])) = Pending"
proof -
  have never: "then_resolve_true p \<noteq> Rejected e" for p e
    by (cases p) simp_all
  have w: "outcome (waitForDeployment ''hello'' 1000 False None
       (in_turn [PodsInfo [], PodsInfo [], PodsInfo [], PodsInfo [], PodsInfo []])) =
     Rejected (JsString ''Unable to retrieve the status of the hello deployment'')"
    by code_simp
  have rm: "request_moment 1500 = 1000" by (simp add: request_moment_def)
  have name: "meta_name (sample_manifest ''hello'') = ''hello''"
    by (simp add: sample_manifest_def)
  show ?thesis
    by (simp add: deployFunctionAndWait_def redeployFunctionAndWait_def Let_def never w rm name
        del: in_turn.simps)
qed

subsection \<open>The completion of the batch\<close>

text \<open>
  Claim C1 does not hold of the code: \<open>counter\<close> counts the pairs of function and event
  that completed, and is compared with \<open>_.keys(functions).length\<close>, the number of
  functions.  With a function that has a handler and one that has none, the only
  scheduled pair completes without an error and the promise stays pending.  With one
  function that has two events, an unchanged one and one whose creation is refused with
  the code 500, the promise settles when the first of the two pairs completes, whichever
  it is; when it is the unchanged one, the promise resolves, and the error of the other
  is collected afterwards and never reported.  Besides, a pair whose ingress rule is
  refused pushes its error and never counts as completed, so the promise stays pending.
\<close>

theorem batch_counter_compares_function_count:
  "map pair_counted (batch_pairs (deploy
       [sample_function ''hello'' (Some ''h.hello'') [], sample_function ''bye'' None []]
       ''python2.7'' (sample_options False) (\<lambda>ns. ''default'')
       (\<lambda>n. sample_backend [] SubmitOk ready_twice None) [0])) = [True] \<and>
   batch_final (deploy
       [sample_function ''hello'' (Some ''h.hello'') [], sample_function ''bye'' None []]
       ''python2.7'' (sample_options False) (\<lambda>ns. ''default'')
       (\<lambda>n. sample_backend [] SubmitOk ready_twice None) [0]) =
     \<lparr> errors = [], counter = 1, batch_outcome = Pending \<rparr> \<and>
   batch_final (deploy
       [sample_function ''hello'' (Some ''h.hello'') [http_event (Some ''/''), trigger_event ''topic'']]
       ''python2.7'' (sample_options False) (\<lambda>ns. ''default'')
       (\<lambda>n. sample_backend [(''hello'', manifest_spec (sample_manifest ''hello''))]
              (SubmitError (Some 500) ''boom'') [] None) [0, 1]) =
     \<lparr> errors = [JsError (''Unable to deploy the function hello. Received:'' @ newline @
                  ''  Code: 500'' @ newline @ ''  Message: boom'')],
       counter = 2, batch_outcome = Resolved () \<rparr> \<and>
   batch_final (deploy
       [sample_function ''hello'' (Some ''h.hello'') [http_event (Some ''/''), trigger_event ''topic'']]
       ''python2.7'' (sample_options False) (\<lambda>ns. ''default'')
       (\<lambda>n. sample_backend [(''hello'', manifest_spec (sample_manifest ''hello''))]
              (SubmitError (Some 500) ''boom'') [] None) [0]) =
     \<lparr> errors = [], counter = 1, batch_outcome = Resolved () \<rparr> \<and>
   batch_final (deploy
       [sample_function ''hello'' (Some ''h.hello'') [http_event (Some ''/''), trigger_event ''topic'']]
       ''python2.7'' (sample_options False) (\<lambda>ns. ''default'')
       (\<lambda>n. sample_backend [(''hello'', manifest_spec (sample_manifest ''hello''))]
              (SubmitError (Some 500) ''boom'') [] None) [1]) =
     \<lparr> errors = [JsError (''Unable to deploy the function hello. Received:'' @ newline @
                  ''  Code: 500'' @ newline @ ''  Message: boom'')],
       counter = 1,
       batch_outcome = Rejected (JsError
         (''Found errors while deploying the given functions:'' @ newline @
          ''Error: Unable to deploy the function hello. Received:'' @ newline @
          ''  Code: 500'' @ newline @ ''  Message: boom'')) \<rparr> \<and>
   batch_final (deploy
       [sample_function ''hello'' (Some ''h.hello'') [http_event (Some ''foo'')]]
       ''python2.7'' (sample_options False) (\<lambda>ns. ''default'')
       (\<lambda>n. sample_backend [] SubmitOk ready_twice (Some ''denied'')) [0]) =
     \<lparr> errors = [JsString ''Unable to deploy the function hello in the given path. Received: denied''],
       counter = 0, batch_outcome = Pending \<rparr>"
  by code_simp

end
